theory Spec2Isabelle
  imports Main "HOL-Library.AList"
begin

section \<open>Text, bytes and exceptions\<close>

text \<open>
  A Python \<open>str\<close> is a sequence of Unicode code points; a code point is an
  integer.  A \<open>bytes\<close> object is a sequence of 8-bit characters.  \<open>str\<close> turns a
  literal of the theory into Python text.
\<close>

type_synonym pystr = "int list"

definition str :: "string \<Rightarrow> pystr" where
  "str s = map of_char s"

text \<open>\<open>str.isspace\<close> for one character: the code points Python counts as whitespace.\<close>

definition isspace :: "int \<Rightarrow> bool" where
  "isspace c =
     (c \<in> set [9, 10, 11, 12, 13, 28, 29, 30, 31, 32, 133, 160, 5760,
                8232, 8233, 8239, 8287, 12288]
      \<or> (8192 \<le> c \<and> c \<le> 8202))"

definition strip :: "pystr \<Rightarrow> pystr" where
  "strip s = rev (dropWhile isspace (rev (dropWhile isspace s)))"

definition startswith :: "pystr \<Rightarrow> pystr \<Rightarrow> bool" where
  "startswith s p = (take (length p) s = p)"

text \<open>
  \<open>bytes.decode("utf-8")\<close>: strict UTF-8, so overlong forms, surrogates, stray
  continuation bytes and truncated sequences are rejected (\<open>None\<close> stands for
  \<open>UnicodeDecodeError\<close>).
\<close>

definition is_cont :: "int \<Rightarrow> bool" where
  "is_cont b = (128 \<le> b \<and> b < 192)"

fun utf8 :: "int list \<Rightarrow> pystr option" where
  "utf8 [] = Some []"
| "utf8 (b0 # bs) =
     (if b0 < 128 then map_option ((#) b0) (utf8 bs)
      else if 192 \<le> b0 \<and> b0 < 224 then
        (case bs of
           b1 # r \<Rightarrow>
             (let cp = (b0 - 192) * 64 + (b1 - 128)
              in if is_cont b1 \<and> 128 \<le> cp then map_option ((#) cp) (utf8 r) else None)
         | _ \<Rightarrow> None)
      else if 224 \<le> b0 \<and> b0 < 240 then
        (case bs of
           b1 # b2 # r \<Rightarrow>
             (let cp = ((b0 - 224) * 64 + (b1 - 128)) * 64 + (b2 - 128)
              in if is_cont b1 \<and> is_cont b2 \<and> 2048 \<le> cp \<and> \<not> (55296 \<le> cp \<and> cp \<le> 57343)
                 then map_option ((#) cp) (utf8 r) else None)
         | _ \<Rightarrow> None)
      else if 240 \<le> b0 \<and> b0 < 248 then
        (case bs of
           b1 # b2 # b3 # r \<Rightarrow>
             (let cp = (((b0 - 240) * 64 + (b1 - 128)) * 64 + (b2 - 128)) * 64 + (b3 - 128)
              in if is_cont b1 \<and> is_cont b2 \<and> is_cont b3 \<and> 65536 \<le> cp \<and> cp \<le> 1114111
                 then map_option ((#) cp) (utf8 r) else None)
         | _ \<Rightarrow> None)
      else None)"

definition decode_utf8 :: "string \<Rightarrow> pystr option" where
  "decode_utf8 bs = utf8 (map of_char bs)"

section \<open>JSON values and \<open>json.loads\<close>\<close>

text \<open>
  A Python float is written as the decimal number it is equal to, \<open>Finite m e\<close> for
  \<open>m * 10 ^ e\<close> (every finite double is such a number), or as one of the three special
  values.  Which float a literal or an int becomes is the interpreter's rounding, a
  parameter of the model (see \<open>pyenv\<close>).
\<close>

datatype pyfloat = Finite int int | NaN | PosInf | NegInf

text \<open>
  The values \<open>json.loads\<close> returns: \<open>None\<close>, \<open>bool\<close>, \<open>int\<close>, \<open>float\<close>, \<open>str\<close>,
  \<open>list\<close> and \<open>dict\<close>.  A dict is an association list with distinct keys in
  insertion order, read with \<open>map_of\<close> and written with \<open>AList.update\<close>.
\<close>

datatype json =
    JNull
  | JBool bool
  | JInt int
  | JFloat pyfloat
  | JStr pystr
  | JArr "json list"
  | JObj "(pystr \<times> json) list"

subsection \<open>Exceptions\<close>

text \<open>
  \<open>errors.py\<close>: the error raised for a non-success HTTP status.  \<open>message\<close> is
  annotated \<open>str\<close> but holds whatever the caller of the constructor passes, so it is
  a JSON value here.
\<close>

record ApertusAPIError =
  status_code :: int
  message :: json
  url :: "pystr option"
  payload :: "json option"

datatype exn =
    ValueError pystr
  | UnicodeDecodeError
  | UnicodeEncodeError
  | JSONDecodeError
  | RecursionError
  | ValidationError
  | APIError ApertusAPIError
  | TransportError pystr

subsection \<open>What the program takes from the interpreter and from pydantic\<close>

text \<open>
  The program leaves to its libraries a number of things that no line of it decides.
  They are parameters of the model, so that what is proved holds whatever they are:
  \<^item> \<open>recursion_depth\<close>: how many containers \<open>json.loads\<close> may nest before the
    interpreter raises \<open>RecursionError\<close> (it depends on the recursion limit and on the
    stack in use at the call);
  \<^item> \<open>max_str_digits\<close>: the longest integer literal Python converts, 0 for no limit
    (\<open>sys.get_int_max_str_digits()\<close>); a longer one raises \<open>ValueError\<close>;
  \<^item> \<open>float_of_decimal m e\<close>: the float Python makes of the literal \<open>m * 10 ^ e\<close>;
  \<^item> \<open>float_of_int\<close>, \<open>int_of_float\<close>, \<open>int_of_str\<close>, \<open>float_of_str\<close>,
    \<open>bool_of_str\<close>: the conversions of pydantic's lax mode between scalars, \<open>None\<close>
    where pydantic reports a validation error.
\<close>

record pyenv =
  recursion_depth :: nat
  max_str_digits :: nat
  float_of_decimal :: "int \<Rightarrow> int \<Rightarrow> pyfloat"
  float_of_int :: "int \<Rightarrow> pyfloat option"
  int_of_float :: "pyfloat \<Rightarrow> int option"
  int_of_str :: "pystr \<Rightarrow> int option"
  float_of_str :: "pystr \<Rightarrow> pyfloat option"
  bool_of_str :: "pystr \<Rightarrow> bool option"

subsection \<open>The scanner\<close>

text \<open>\<open>dict(pairs)\<close>: a later pair replaces the value of an earlier one with the same key.\<close>

definition mkdict :: "(pystr \<times> json) list \<Rightarrow> (pystr \<times> json) list" where
  "mkdict pairs = foldl (\<lambda>d (k, v). AList.update k v d) [] pairs"

definition is_json_ws :: "int \<Rightarrow> bool" where
  "is_json_ws c = (c = 32 \<or> c = 9 \<or> c = 10 \<or> c = 13)"

definition skip_ws :: "pystr \<Rightarrow> pystr" where
  "skip_ws s = dropWhile is_json_ws s"

definition isdigit :: "int \<Rightarrow> bool" where
  "isdigit c = (48 \<le> c \<and> c \<le> 57)"

definition digits_val :: "pystr \<Rightarrow> int" where
  "digits_val ds = foldl (\<lambda>a d. a * 10 + (d - 48)) 0 ds"

definition hexval :: "int \<Rightarrow> int option" where
  "hexval c =
     (if 48 \<le> c \<and> c \<le> 57 then Some (c - 48)
      else if 97 \<le> c \<and> c \<le> 102 then Some (c - 87)
      else if 65 \<le> c \<and> c \<le> 70 then Some (c - 55)
      else None)"

definition decode_uXXXX :: "pystr \<Rightarrow> int option" where
  "decode_uXXXX s =
     (case map hexval (take 4 s) of
        [Some a, Some b, Some c, Some d] \<Rightarrow> Some (((a * 16 + b) * 16 + c) * 16 + d)
      | _ \<Rightarrow> None)"

definition escape_char :: "int \<Rightarrow> int option" where
  "escape_char e =
     (if e = 34 then Some 34 else if e = 92 then Some 92 else if e = 47 then Some 47
      else if e = 98 then Some 8 else if e = 102 then Some 12 else if e = 110 then Some 10
      else if e = 114 then Some 13 else if e = 116 then Some 9 else None)"

text \<open>
  \<open>scanstring\<close> reads a string body after its opening quote (strict mode): it returns
  the decoded text and the input after the closing quote.
\<close>

fun scanstring :: "pystr \<Rightarrow> pystr \<Rightarrow> (pystr \<times> pystr) option" where
  "scanstring acc [] = None"
| "scanstring acc (c # cs) =
     (if c = 34 then Some (rev acc, cs)
      else if c = 92 then
        (case cs of
           [] \<Rightarrow> None
         | e # es \<Rightarrow>
             if e = 117 then
               (case decode_uXXXX es of
                  None \<Rightarrow> None
                | Some uni \<Rightarrow>
                    if 55296 \<le> uni \<and> uni \<le> 56319 \<and> take 2 (drop 4 es) = [92, 117] then
                      (case decode_uXXXX (drop 6 es) of
                         None \<Rightarrow> None
                       | Some uni2 \<Rightarrow>
                           if 56320 \<le> uni2 \<and> uni2 \<le> 57343
                           then scanstring
                                  ((65536 + ((uni - 55296) * 1024 + (uni2 - 56320))) # acc)
                                  (drop 10 es)
                           else scanstring (uni # acc) (drop 4 es))
                    else scanstring (uni # acc) (drop 4 es))
             else
               (case escape_char e of
                  None \<Rightarrow> None
                | Some ch \<Rightarrow> scanstring (ch # acc) es))
      else if c < 32 then None
      else scanstring (c # acc) cs)"

text \<open>
  The number pattern of the scanner,
  \<^verbatim>\<open>(-?(?:0|[1-9]\d*))(\.\d+)?([eE][-+]?\d+)?\<close>: an integer unless a fraction or an
  exponent matched.
\<close>

definition match_digits :: "pystr \<Rightarrow> (pystr \<times> pystr) option" where
  "match_digits s =
     (case s of
        [] \<Rightarrow> None
      | c # cs \<Rightarrow>
          if c = 48 then Some ([48], cs)
          else if isdigit c then Some (takeWhile isdigit s, dropWhile isdigit s)
          else None)"

definition match_frac :: "pystr \<Rightarrow> (pystr \<times> pystr) option" where
  "match_frac r =
     (case r of
        [] \<Rightarrow> None
      | c # cs \<Rightarrow>
          if c = 46 \<and> takeWhile isdigit cs \<noteq> []
          then Some (takeWhile isdigit cs, dropWhile isdigit cs)
          else None)"

definition match_exp :: "pystr \<Rightarrow> (int \<times> pystr) option" where
  "match_exp r =
     (case r of
        [] \<Rightarrow> None
      | c # cs \<Rightarrow>
          if c = 101 \<or> c = 69 then
            (let neg = (take 1 cs = [45]);
                 ds = (if take 1 cs = [45] \<or> take 1 cs = [43] then drop 1 cs else cs)
             in if takeWhile isdigit ds \<noteq> []
                then Some ((if neg then - 1 else 1) * digits_val (takeWhile isdigit ds),
                           dropWhile isdigit ds)
                else None)
          else None)"

text \<open>
  An integer literal longer than \<open>max_str_digits\<close> raises \<open>ValueError\<close>; a literal
  with a fraction or an exponent becomes a float.
\<close>

definition int_literal :: "pyenv \<Rightarrow> int \<Rightarrow> pystr \<Rightarrow> exn + json" where
  "int_literal E sg ds =
     (if max_str_digits E \<noteq> 0 \<and> max_str_digits E < length ds
      then Inl (ValueError (str ''Exceeds the limit for integer string conversion''))
      else Inr (JInt (sg * digits_val ds)))"

definition match_number :: "pyenv \<Rightarrow> pystr \<Rightarrow> ((exn + json) \<times> pystr) option" where
  "match_number E s =
     (let neg = (take 1 s = [45]);
          sg = (if neg then - 1 else 1 :: int)
      in case match_digits (if neg then drop 1 s else s) of
           None \<Rightarrow> None
         | Some (ipart, r1) \<Rightarrow>
             (case match_frac r1 of
                None \<Rightarrow>
                  (case match_exp r1 of
                     None \<Rightarrow> Some (int_literal E sg ipart, r1)
                   | Some (ex, r3) \<Rightarrow>
                       Some (Inr (JFloat (float_of_decimal E (sg * digits_val ipart) ex)), r3))
              | Some (frac, r2) \<Rightarrow>
                  (case match_exp r2 of
                     None \<Rightarrow>
                       Some (Inr (JFloat (float_of_decimal E (sg * digits_val (ipart @ frac))
                                            (- int (length frac)))), r2)
                   | Some (ex, r3) \<Rightarrow>
                       Some (Inr (JFloat (float_of_decimal E (sg * digits_val (ipart @ frac))
                                            (ex - int (length frac)))), r3))))"

text \<open>
  The recursive scanner.  \<open>Ok v r\<close> is the value read and the input left after it,
  \<open>Err e\<close> the exception raised.  The second number is the depth still allowed:
  entering an object or an array at depth 0 raises \<open>RecursionError\<close>.  The first
  number is fuel that bounds the recursion of the definition; \<open>json_loads\<close> supplies
  two units for every character of the input, and each call uses up a character for
  every two units it spends, so that the fuel never runs out (\<open>json_loads_fuel\<close>
  below).
\<close>

datatype 'a pres = Fuel | Err exn | Ok 'a pystr

fun scan_once :: "pyenv \<Rightarrow> nat \<Rightarrow> nat \<Rightarrow> pystr \<Rightarrow> json pres"
  and JSONArray :: "pyenv \<Rightarrow> nat \<Rightarrow> nat \<Rightarrow> json list \<Rightarrow> pystr \<Rightarrow> json pres"
  and JSONObject ::
    "pyenv \<Rightarrow> nat \<Rightarrow> nat \<Rightarrow> (pystr \<times> json) list \<Rightarrow> pystr \<Rightarrow> json pres"
where
  "scan_once E 0 dp s = Fuel"
| "scan_once E (Suc n) dp [] = Err JSONDecodeError"
| "scan_once E (Suc n) dp (c # cs) =
     (if c = 34 then
        (case scanstring [] cs of
           None \<Rightarrow> Err JSONDecodeError
         | Some (v, r) \<Rightarrow> Ok (JStr v) r)
      else if c = 123 then
        (if dp = 0 then Err RecursionError
         else if take 1 (skip_ws cs) = [125] then Ok (JObj []) (drop 1 (skip_ws cs))
         else JSONObject E n (dp - 1) [] (skip_ws cs))
      else if c = 91 then
        (if dp = 0 then Err RecursionError
         else if take 1 (skip_ws cs) = [93] then Ok (JArr []) (drop 1 (skip_ws cs))
         else JSONArray E n (dp - 1) [] (skip_ws cs))
      else if startswith (c # cs) (str ''null'') then Ok JNull (drop 4 (c # cs))
      else if startswith (c # cs) (str ''true'') then Ok (JBool True) (drop 4 (c # cs))
      else if startswith (c # cs) (str ''false'') then Ok (JBool False) (drop 5 (c # cs))
      else
        (case match_number E (c # cs) of
           Some (Inr v, r) \<Rightarrow> Ok v r
         | Some (Inl e, r) \<Rightarrow> Err e
         | None \<Rightarrow>
             if startswith (c # cs) (str ''NaN'') then Ok (JFloat NaN) (drop 3 (c # cs))
             else if startswith (c # cs) (str ''Infinity'')
               then Ok (JFloat PosInf) (drop 8 (c # cs))
             else if startswith (c # cs) (str ''-Infinity'')
               then Ok (JFloat NegInf) (drop 9 (c # cs))
             else Err JSONDecodeError))"
| "JSONArray E 0 dp acc s = Fuel"
| "JSONArray E (Suc n) dp acc s =
     (case scan_once E n dp s of
        Fuel \<Rightarrow> Fuel
      | Err e \<Rightarrow> Err e
      | Ok v r \<Rightarrow>
          (case skip_ws r of
             [] \<Rightarrow> Err JSONDecodeError
           | d # r' \<Rightarrow>
               if d = 93 then Ok (JArr (rev (v # acc))) r'
               else if d = 44 then JSONArray E n dp (v # acc) (skip_ws r')
               else Err JSONDecodeError))"
| "JSONObject E 0 dp acc s = Fuel"
| "JSONObject E (Suc n) dp acc s =
     (case s of
        [] \<Rightarrow> Err JSONDecodeError
      | q # s1 \<Rightarrow>
          if q \<noteq> 34 then Err JSONDecodeError
          else
            (case scanstring [] s1 of
               None \<Rightarrow> Err JSONDecodeError
             | Some (key, r0) \<Rightarrow>
                 (case skip_ws r0 of
                    [] \<Rightarrow> Err JSONDecodeError
                  | col # r1 \<Rightarrow>
                      if col \<noteq> 58 then Err JSONDecodeError
                      else
                        (case scan_once E n dp (skip_ws r1) of
                           Fuel \<Rightarrow> Fuel
                         | Err e \<Rightarrow> Err e
                         | Ok v r \<Rightarrow>
                             (case skip_ws r of
                                [] \<Rightarrow> Err JSONDecodeError
                              | d # r' \<Rightarrow>
                                  if d = 125
                                    then Ok (JObj (mkdict (rev ((key, v) # acc)))) r'
                                  else if d = 44
                                    then JSONObject E n dp ((key, v) # acc) (skip_ws r')
                                  else Err JSONDecodeError)))))"

text \<open>
  \<open>json.loads\<close> on text: leading whitespace, one value, trailing whitespace and the
  end of the input.  It returns the value (\<open>Inr\<close>) or raises (\<open>Inl\<close>):
  \<open>JSONDecodeError\<close> for text that is not JSON, \<open>RecursionError\<close> and \<open>ValueError\<close>
  where the interpreter's limits are met first.
\<close>

definition json_loads :: "pyenv \<Rightarrow> pystr \<Rightarrow> exn + json" where
  "json_loads E s =
     (case scan_once E (2 * length s + 2) (recursion_depth E) (skip_ws s) of
        Ok v r \<Rightarrow> if skip_ws r = [] then Inr v else Inl JSONDecodeError
      | Err e \<Rightarrow> Inl e
      | Fuel \<Rightarrow> Inl JSONDecodeError)"

section \<open>Response models (\<open>types.py\<close>)\<close>

text \<open>
  Field validation as pydantic does it in its default (lax) mode on Python values:
  \<open>None\<close> stands for \<open>ValidationError\<close>.  A \<open>str\<close> field takes a string only.  An
  \<open>int\<close> field takes an int, a bool (as 0 or 1), and what the conversions of the
  environment make of a float or a string.  A key a model does not declare is ignored.
\<close>

definition validate_str :: "json \<Rightarrow> pystr option" where
  "validate_str v = (case v of JStr s \<Rightarrow> Some s | _ \<Rightarrow> None)"

definition validate_int :: "pyenv \<Rightarrow> json \<Rightarrow> int option" where
  "validate_int E v =
     (case v of
        JInt i \<Rightarrow> Some i
      | JBool b \<Rightarrow> Some (if b then 1 else 0)
      | JFloat f \<Rightarrow> int_of_float E f
      | JStr s \<Rightarrow> int_of_str E s
      | _ \<Rightarrow> None)"

text \<open>
  \<open>Optional[T] = None\<close>: a missing key and an explicit \<open>None\<close> both give \<open>None\<close>.
  A field without default is required.
\<close>

definition optional :: "(json \<Rightarrow> 'a option) \<Rightarrow> json option \<Rightarrow> 'a option option" where
  "optional f v =
     (case v of
        None \<Rightarrow> Some None
      | Some JNull \<Rightarrow> Some None
      | Some x \<Rightarrow> map_option Some (f x))"

definition required :: "(json \<Rightarrow> 'a option) \<Rightarrow> json option \<Rightarrow> 'a option" where
  "required f v = (case v of None \<Rightarrow> None | Some x \<Rightarrow> f x)"

definition validate_list :: "(json \<Rightarrow> 'a option) \<Rightarrow> json \<Rightarrow> 'a list option" where
  "validate_list f v = (case v of JArr xs \<Rightarrow> those (map f xs) | _ \<Rightarrow> None)"

record ChatChoiceDelta =
  delta_role :: "pystr option"
  delta_content :: "pystr option"

record ChatChoiceMessage =
  message_role :: pystr
  message_content :: pystr

record ChatChoice =
  index :: int
  choice_message :: "ChatChoiceMessage option"
  finish_reason :: "pystr option"
  delta :: "ChatChoiceDelta option"

record ChatCompletionChunk =
  chunk_id :: "pystr option"
  chunk_object :: "pystr option"
  created :: "int option"
  chunk_model :: "pystr option"
  choices :: "ChatChoice list"

record StreamEvent =
  event_delta :: "pystr option"
  choice_index :: int
  raw :: ChatCompletionChunk

definition ChatChoiceDelta_validate :: "json \<Rightarrow> ChatChoiceDelta option" where
  "ChatChoiceDelta_validate v =
     (case v of
        JObj d \<Rightarrow>
          Option.bind (optional validate_str (map_of d (str ''role''))) (\<lambda>r.
          Option.bind (optional validate_str (map_of d (str ''content''))) (\<lambda>c.
          Some \<lparr>delta_role = r, delta_content = c\<rparr>))
      | _ \<Rightarrow> None)"

definition ChatChoiceMessage_validate :: "json \<Rightarrow> ChatChoiceMessage option" where
  "ChatChoiceMessage_validate v =
     (case v of
        JObj d \<Rightarrow>
          Option.bind (required validate_str (map_of d (str ''role''))) (\<lambda>r.
          Option.bind (required validate_str (map_of d (str ''content''))) (\<lambda>c.
          Some \<lparr>message_role = r, message_content = c\<rparr>))
      | _ \<Rightarrow> None)"

definition ChatChoice_validate :: "pyenv \<Rightarrow> json \<Rightarrow> ChatChoice option" where
  "ChatChoice_validate E v =
     (case v of
        JObj d \<Rightarrow>
          Option.bind (required (validate_int E) (map_of d (str ''index''))) (\<lambda>i.
          Option.bind (optional ChatChoiceMessage_validate (map_of d (str ''message''))) (\<lambda>m.
          Option.bind (optional validate_str (map_of d (str ''finish_reason''))) (\<lambda>f.
          Option.bind (optional ChatChoiceDelta_validate (map_of d (str ''delta''))) (\<lambda>dl.
          Some \<lparr>index = i, choice_message = m, finish_reason = f, delta = dl\<rparr>))))
      | _ \<Rightarrow> None)"

definition ChatCompletionChunk_validate ::
  "pyenv \<Rightarrow> json \<Rightarrow> ChatCompletionChunk option" where
  "ChatCompletionChunk_validate E v =
     (case v of
        JObj d \<Rightarrow>
          Option.bind (optional validate_str (map_of d (str ''id''))) (\<lambda>i.
          Option.bind (optional validate_str (map_of d (str ''object''))) (\<lambda>ob.
          Option.bind (optional (validate_int E) (map_of d (str ''created''))) (\<lambda>cr.
          Option.bind (optional validate_str (map_of d (str ''model''))) (\<lambda>mo.
          Option.bind (required (validate_list (ChatChoice_validate E))
                         (map_of d (str ''choices''))) (\<lambda>chs.
          Some \<lparr>chunk_id = i, chunk_object = ob, created = cr, chunk_model = mo,
                choices = chs\<rparr>)))))
      | _ \<Rightarrow> None)"

section \<open>The stream decoder (\<open>client.py\<close>)\<close>

text \<open>
  A line the transport hands over is text or bytes.  A generator is the sequence of
  what it does when asked for the next item: yield an item, raise, or stop.
\<close>

datatype raw_line = Text pystr | Bytes string

datatype 'a pygen = Stop | Raise exn | Yield 'a "'a pygen"

text \<open>
  The projection of a validated chunk (the lines after \<open>model_validate\<close> in the loop
  body): the content of the first choice's delta when there is one, and always an
  event.  A model instance is truthy, so \<open>ch0.delta\<close> is false only for \<open>None\<close>.
\<close>

definition project :: "ChatCompletionChunk \<Rightarrow> StreamEvent" where
  "project chunk =
     (let dl =
        (case choices chunk of
           [] \<Rightarrow> None
         | ch0 # _ \<Rightarrow>
             (case delta ch0 of
                None \<Rightarrow> None
              | Some d \<Rightarrow> delta_content d))
      in \<lparr>event_delta = dl, choice_index = 0, raw = chunk\<rparr>)"

text \<open>
  One pass of the loop body of \<open>_ChatCompletions.stream\<close>, ending in \<open>continue\<close>,
  \<open>break\<close>, an uncaught exception or the \<open>yield\<close>.  Only \<open>JSONDecodeError\<close> is
  caught: what else \<open>json.loads\<close> raises, and what the decoding of bytes and the
  validation raise, leaves the loop.
\<close>

datatype step = Continue | Break | Throw exn | Emit StreamEvent

definition stream_body :: "pyenv \<Rightarrow> raw_line \<Rightarrow> step" where
  "stream_body E line =
     (case (case line of Bytes b \<Rightarrow> decode_utf8 b | Text t \<Rightarrow> Some t) of
        None \<Rightarrow> Throw UnicodeDecodeError
      | Some text0 \<Rightarrow>
          (let text = strip text0
           in if text = [] then Continue
              else
                (let text = (if startswith text (str ''data:'')
                             then strip (drop (length (str ''data:'')) text)
                             else text)
                 in if text = str ''[DONE]'' then Break
                    else
                      (case json_loads E text of
                         Inl e \<Rightarrow> (if e = JSONDecodeError then Continue else Throw e)
                       | Inr obj \<Rightarrow>
                           (case ChatCompletionChunk_validate E obj of
                              None \<Rightarrow> Throw ValidationError
                            | Some chunk \<Rightarrow> Emit (project chunk))))))"

text \<open>
  What a caller that iterates the generator to its end observes: the events in the
  order they were yielded, how the iteration ended, and the part of the line source
  that was never asked for.
\<close>

datatype outcome = Sentinel | Exhausted | Raised exn

fun stream_loop ::
  "pyenv \<Rightarrow> raw_line pygen \<Rightarrow> StreamEvent list \<times> outcome \<times> raw_line pygen" where
  "stream_loop E Stop = ([], Exhausted, Stop)"
| "stream_loop E (Raise e) = ([], Raised e, Stop)"
| "stream_loop E (Yield line rest) =
     (case stream_body E line of
        Continue \<Rightarrow> stream_loop E rest
      | Break \<Rightarrow> ([], Sentinel, rest)
      | Throw e \<Rightarrow> ([], Raised e, rest)
      | Emit ev \<Rightarrow>
          (case stream_loop E rest of (evs, out, unread) \<Rightarrow> (ev # evs, out, unread)))"

text \<open>The same for \<open>_AsyncChatCompletions.stream\<close>, written out from its own text.\<close>

definition astream_body :: "pyenv \<Rightarrow> raw_line \<Rightarrow> step" where
  "astream_body E line =
     (let text = line
      in case (case text of Bytes b \<Rightarrow> decode_utf8 b | Text t \<Rightarrow> Some t) of
           None \<Rightarrow> Throw UnicodeDecodeError
         | Some text0 \<Rightarrow>
             (let text = strip text0
              in if text = [] then Continue
                 else
                   (let text = (if startswith text (str ''data:'')
                                then strip (drop (length (str ''data:'')) text)
                                else text)
                    in if text = str ''[DONE]'' then Break
                       else
                         (case json_loads E text of
                            Inl e \<Rightarrow> (if e = JSONDecodeError then Continue else Throw e)
                          | Inr obj \<Rightarrow>
                              (case ChatCompletionChunk_validate E obj of
                                 None \<Rightarrow> Throw ValidationError
                               | Some chunk \<Rightarrow> Emit (project chunk))))))"

fun astream_loop ::
  "pyenv \<Rightarrow> raw_line pygen \<Rightarrow> StreamEvent list \<times> outcome \<times> raw_line pygen" where
  "astream_loop E Stop = ([], Exhausted, Stop)"
| "astream_loop E (Raise e) = ([], Raised e, Stop)"
| "astream_loop E (Yield line rest) =
     (case astream_body E line of
        Continue \<Rightarrow> astream_loop E rest
      | Break \<Rightarrow> ([], Sentinel, rest)
      | Throw e \<Rightarrow> ([], Raised e, rest)
      | Emit ev \<Rightarrow>
          (case astream_loop E rest of (evs, out, unread) \<Rightarrow> (ev # evs, out, unread)))"

section \<open>Request models (\<open>types.py\<close>)\<close>

text \<open>
  The keyword arguments of a call are a dict of Python values, here the values of type
  \<open>json\<close>.  A \<open>float\<close> field takes a float, a bool (as 0.0 or 1.0), and what the
  environment makes of an int or a string; a \<open>bool\<close> field takes a bool, the numbers
  0 and 1, and what the environment makes of a string.  A union takes the value whose
  type matches one of its members.
\<close>

definition validate_float :: "pyenv \<Rightarrow> json \<Rightarrow> pyfloat option" where
  "validate_float E v =
     (case v of
        JFloat f \<Rightarrow> Some f
      | JInt i \<Rightarrow> float_of_int E i
      | JBool b \<Rightarrow> Some (Finite (if b then 1 else 0) 0)
      | JStr s \<Rightarrow> float_of_str E s
      | _ \<Rightarrow> None)"

definition int_as_bool :: "int \<Rightarrow> bool option" where
  "int_as_bool i = (if i = 0 then Some False else if i = 1 then Some True else None)"

definition validate_bool :: "pyenv \<Rightarrow> json \<Rightarrow> bool option" where
  "validate_bool E v =
     (case v of
        JBool b \<Rightarrow> Some b
      | JInt i \<Rightarrow> int_as_bool i
      | JFloat f \<Rightarrow> Option.bind (int_of_float E f) int_as_bool
      | JStr s \<Rightarrow> bool_of_str E s
      | _ \<Rightarrow> None)"

definition validate_dict :: "json \<Rightarrow> (pystr \<times> json) list option" where
  "validate_dict v = (case v of JObj d \<Rightarrow> Some d | _ \<Rightarrow> None)"

definition validate_float_dict :: "pyenv \<Rightarrow> json \<Rightarrow> (pystr \<times> pyfloat) list option" where
  "validate_float_dict E v =
     (case v of
        JObj d \<Rightarrow> those (map (\<lambda>(k, x). map_option (Pair k) (validate_float E x)) d)
      | _ \<Rightarrow> None)"

definition validate_str_or_list :: "json \<Rightarrow> (pystr + pystr list) option" where
  "validate_str_or_list v =
     (case v of
        JStr s \<Rightarrow> Some (Inl s)
      | JArr xs \<Rightarrow> map_option Inr (those (map validate_str xs))
      | _ \<Rightarrow> None)"

definition validate_str_or_dicts :: "json \<Rightarrow> (pystr + (pystr \<times> json) list list) option" where
  "validate_str_or_dicts v =
     (case v of
        JStr s \<Rightarrow> Some (Inl s)
      | JArr xs \<Rightarrow> map_option Inr (those (map validate_dict xs))
      | _ \<Rightarrow> None)"

definition validate_str_or_dict :: "json \<Rightarrow> (pystr + (pystr \<times> json) list) option" where
  "validate_str_or_dict v =
     (case v of
        JStr s \<Rightarrow> Some (Inl s)
      | JObj d \<Rightarrow> Some (Inr d)
      | _ \<Rightarrow> None)"

definition validate_role :: "json \<Rightarrow> pystr option" where
  "validate_role v =
     (case v of
        JStr s \<Rightarrow>
          if s \<in> set (map str [''system'', ''user'', ''assistant'', ''tool''])
          then Some s else None
      | _ \<Rightarrow> None)"

record ChatMessage =
  role :: pystr
  content :: "pystr + (pystr \<times> json) list list"
  name :: "pystr option"

record ChatCompletionRequest =
  model :: pystr
  messages :: "ChatMessage list"
  temperature :: "pyfloat option"
  top_p :: "pyfloat option"
  num :: "int option"
  stream :: "bool option"
  stop :: "(pystr + pystr list) option"
  max_tokens :: "int option"
  presence_penalty :: "pyfloat option"
  frequency_penalty :: "pyfloat option"
  logit_bias :: "(pystr \<times> pyfloat) list option"
  user :: "pystr option"
  tools :: "(pystr \<times> json) list list option"
  tool_choice :: "(pystr + (pystr \<times> json) list) option"

definition ChatMessage_validate :: "json \<Rightarrow> ChatMessage option" where
  "ChatMessage_validate v =
     (case v of
        JObj d \<Rightarrow>
          Option.bind (required validate_role (map_of d (str ''role''))) (\<lambda>r.
          Option.bind (required validate_str_or_dicts (map_of d (str ''content''))) (\<lambda>c.
          Option.bind (optional validate_str (map_of d (str ''name''))) (\<lambda>nm.
          Some \<lparr>role = r, content = c, name = nm\<rparr>)))
      | _ \<Rightarrow> None)"

text \<open>\<open>ChatCompletionRequest(**kwargs)\<close>.\<close>

definition ChatCompletionRequest_init ::
  "pyenv \<Rightarrow> (pystr \<times> json) list \<Rightarrow> ChatCompletionRequest option" where
  "ChatCompletionRequest_init E kw =
     Option.bind (required validate_str (map_of kw (str ''model''))) (\<lambda>mo.
     Option.bind (required (validate_list ChatMessage_validate)
                    (map_of kw (str ''messages''))) (\<lambda>ms.
     Option.bind (optional (validate_float E) (map_of kw (str ''temperature''))) (\<lambda>te.
     Option.bind (optional (validate_float E) (map_of kw (str ''top_p''))) (\<lambda>tp.
     Option.bind (optional (validate_int E) (map_of kw (str ''n''))) (\<lambda>nn.
     Option.bind (optional (validate_bool E) (map_of kw (str ''stream''))) (\<lambda>sm.
     Option.bind (optional validate_str_or_list (map_of kw (str ''stop''))) (\<lambda>sp.
     Option.bind (optional (validate_int E) (map_of kw (str ''max_tokens''))) (\<lambda>mt.
     Option.bind (optional (validate_float E) (map_of kw (str ''presence_penalty''))) (\<lambda>pp.
     Option.bind (optional (validate_float E) (map_of kw (str ''frequency_penalty''))) (\<lambda>fp.
     Option.bind (optional (validate_float_dict E) (map_of kw (str ''logit_bias''))) (\<lambda>lb.
     Option.bind (optional validate_str (map_of kw (str ''user''))) (\<lambda>us.
     Option.bind (optional (validate_list validate_dict) (map_of kw (str ''tools''))) (\<lambda>ts.
     Option.bind (optional validate_str_or_dict (map_of kw (str ''tool_choice''))) (\<lambda>tc.
     Some \<lparr>model = mo, messages = ms, temperature = te, top_p = tp, num = nn, stream = sm,
           stop = sp, max_tokens = mt, presence_penalty = pp, frequency_penalty = fp,
           logit_bias = lb, user = us, tools = ts, tool_choice = tc\<rparr>))))))))))))))"

text \<open>
  \<open>model_dump(exclude_none=True)\<close>: the fields in the order of their declaration, a
  field whose value is \<open>None\<close> left out, in nested models too.  The entries of a plain
  dict are kept as they are.
\<close>

definition entry :: "string \<Rightarrow> ('a \<Rightarrow> json) \<Rightarrow> 'a option \<Rightarrow> (pystr \<times> json) list" where
  "entry k f v = (case v of None \<Rightarrow> [] | Some x \<Rightarrow> [(str k, f x)])"

definition dump_str_or_list :: "pystr + pystr list \<Rightarrow> json" where
  "dump_str_or_list v = (case v of Inl s \<Rightarrow> JStr s | Inr xs \<Rightarrow> JArr (map JStr xs))"

definition dump_str_or_dicts :: "pystr + (pystr \<times> json) list list \<Rightarrow> json" where
  "dump_str_or_dicts v = (case v of Inl s \<Rightarrow> JStr s | Inr ds \<Rightarrow> JArr (map JObj ds))"

definition dump_str_or_dict :: "pystr + (pystr \<times> json) list \<Rightarrow> json" where
  "dump_str_or_dict v = (case v of Inl s \<Rightarrow> JStr s | Inr d \<Rightarrow> JObj d)"

definition dump_float_dict :: "(pystr \<times> pyfloat) list \<Rightarrow> json" where
  "dump_float_dict d = JObj (map (\<lambda>(k, x). (k, JFloat x)) d)"

definition ChatMessage_dump :: "ChatMessage \<Rightarrow> json" where
  "ChatMessage_dump m =
     JObj ([(str ''role'', JStr (role m)), (str ''content'', dump_str_or_dicts (content m))]
           @ entry ''name'' JStr (name m))"

definition model_dump :: "ChatCompletionRequest \<Rightarrow> (pystr \<times> json) list" where
  "model_dump r =
     [(str ''model'', JStr (model r)),
      (str ''messages'', JArr (map ChatMessage_dump (messages r)))]
     @ entry ''temperature'' JFloat (temperature r)
     @ entry ''top_p'' JFloat (top_p r)
     @ entry ''n'' JInt (num r)
     @ entry ''stream'' JBool (stream r)
     @ entry ''stop'' dump_str_or_list (stop r)
     @ entry ''max_tokens'' JInt (max_tokens r)
     @ entry ''presence_penalty'' JFloat (presence_penalty r)
     @ entry ''frequency_penalty'' JFloat (frequency_penalty r)
     @ entry ''logit_bias'' dump_float_dict (logit_bias r)
     @ entry ''user'' JStr (user r)
     @ entry ''tools'' (\<lambda>ts. JArr (map JObj ts)) (tools r)
     @ entry ''tool_choice'' dump_str_or_dict (tool_choice r)"

text \<open>
  The first statement of \<open>create\<close> and of \<open>stream\<close>: the payload handed to the
  transport, or \<open>None\<close> when the arguments do not validate.
\<close>

definition create_payload ::
  "pyenv \<Rightarrow> (pystr \<times> json) list \<Rightarrow> (pystr \<times> json) list option" where
  "create_payload E kwargs = map_option model_dump (ChatCompletionRequest_init E kwargs)"

definition stream_payload ::
  "pyenv \<Rightarrow> (pystr \<times> json) list \<Rightarrow> (pystr \<times> json) list option" where
  "stream_payload E kwargs =
     map_option model_dump
       (ChatCompletionRequest_init E (AList.update (str ''stream'') (JBool True) kwargs))"

section \<open>The transport (\<open>http.py\<close>)\<close>

text \<open>
  The HTTP client library is outside the program: a client is given by the response it
  returns to each request, and a streamed response also by the lines \<open>iter_lines\<close>
  produces.  The body of a response is kept as its text.
\<close>

record Response =
  resp_status_code :: int
  resp_text :: pystr
  resp_url :: pystr

record StreamResponse = Response +
  iter_lines :: "raw_line pygen"

record Client =
  client_get :: "pystr \<Rightarrow> Response"
  client_post :: "pystr \<Rightarrow> (pystr \<times> json) list \<Rightarrow> Response"
  client_stream :: "pystr \<Rightarrow> (pystr \<times> json) list \<Rightarrow> StreamResponse"

text \<open>Truth value of a Python value, \<open>dict.get\<close>, and \<open>a or b\<close>.\<close>

definition truthy :: "json \<Rightarrow> bool" where
  "truthy v =
     (case v of
        JNull \<Rightarrow> False
      | JBool b \<Rightarrow> b
      | JInt i \<Rightarrow> i \<noteq> 0
      | JFloat f \<Rightarrow> (case f of Finite m e \<Rightarrow> m \<noteq> 0 | _ \<Rightarrow> True)
      | JStr s \<Rightarrow> s \<noteq> []
      | JArr xs \<Rightarrow> xs \<noteq> []
      | JObj d \<Rightarrow> d \<noteq> [])"

definition dict_get :: "(pystr \<times> json) list \<Rightarrow> pystr \<Rightarrow> json" where
  "dict_get d k = (case map_of d k of None \<Rightarrow> JNull | Some v \<Rightarrow> v)"

definition py_or :: "json \<Rightarrow> json \<Rightarrow> json" where
  "py_or a b = (if truthy a then a else b)"

text \<open>
  \<open>_raise_api_error\<close>: the \<open>try\<close> block fails when \<open>r.json()\<close> raises, whatever it
  raises, and also when the parsed body is not a dict (it has no \<open>get\<close>); the handler
  then takes the body text and no payload.  The function always raises; the model
  returns what it raises.
\<close>

definition raise_api_error :: "pyenv \<Rightarrow> Response \<Rightarrow> exn" where
  "raise_api_error E r =
     (case json_loads E (resp_text r) of
        Inr (JObj d) \<Rightarrow>
          APIError \<lparr>status_code = resp_status_code r,
                    message = py_or (dict_get d (str ''error''))
                                (py_or (dict_get d (str ''message'')) (JStr (resp_text r))),
                    url = Some (resp_url r),
                    payload = Some (JObj d)\<rparr>
      | _ \<Rightarrow>
          APIError \<lparr>status_code = resp_status_code r, message = JStr (resp_text r),
                    url = Some (resp_url r), payload = None\<rparr>)"

definition raise_api_error_object ::
  "int \<Rightarrow> json \<Rightarrow> pystr option \<Rightarrow> json option \<Rightarrow> exn" where
  "raise_api_error_object status msg u pl =
     APIError \<lparr>status_code = status, message = msg, url = u, payload = pl\<rparr>"

definition SyncHTTP_get :: "pyenv \<Rightarrow> Client \<Rightarrow> pystr \<Rightarrow> exn + json" where
  "SyncHTTP_get E c path =
     (let r = client_get c path
      in if resp_status_code r div 100 \<noteq> 2 then Inl (raise_api_error E r)
         else json_loads E (resp_text r))"

definition SyncHTTP_post_json ::
  "pyenv \<Rightarrow> Client \<Rightarrow> pystr \<Rightarrow> (pystr \<times> json) list \<Rightarrow> exn + json" where
  "SyncHTTP_post_json E c path js =
     (let r = client_post c path js
      in if resp_status_code r div 100 \<noteq> 2 then Inl (raise_api_error E r)
         else json_loads E (resp_text r))"

text \<open>The inner loop of \<open>post_stream\<close>: empty lines are passed over.\<close>

fun nonempty_lines :: "raw_line pygen \<Rightarrow> raw_line pygen" where
  "nonempty_lines Stop = Stop"
| "nonempty_lines (Raise e) = Raise e"
| "nonempty_lines (Yield line rest) =
     (if line = Text [] \<or> line = Bytes [] then nonempty_lines rest
      else Yield line (nonempty_lines rest))"

definition SyncHTTP_post_stream ::
  "Client \<Rightarrow> pystr \<Rightarrow> (pystr \<times> json) list \<Rightarrow> raw_line pygen" where
  "SyncHTTP_post_stream c path js =
     (let resp = client_stream c path js
      in if resp_status_code resp div 100 \<noteq> 2 then
           (let body = resp_text resp
            in Raise (raise_api_error_object (resp_status_code resp) (JStr body)
                        (Some (resp_url resp)) (Some (JObj js))))
         else nonempty_lines (iter_lines resp))"

text \<open>\<open>AsyncHTTP\<close>, from its own text.\<close>

definition araise_api_error :: "pyenv \<Rightarrow> Response \<Rightarrow> exn" where
  "araise_api_error E r =
     (case json_loads E (resp_text r) of
        Inr (JObj d) \<Rightarrow>
          APIError \<lparr>status_code = resp_status_code r,
                    message = py_or (dict_get d (str ''error''))
                                (py_or (dict_get d (str ''message'')) (JStr (resp_text r))),
                    url = Some (resp_url r),
                    payload = Some (JObj d)\<rparr>
      | _ \<Rightarrow>
          APIError \<lparr>status_code = resp_status_code r, message = JStr (resp_text r),
                    url = Some (resp_url r), payload = None\<rparr>)"

definition AsyncHTTP_get :: "pyenv \<Rightarrow> Client \<Rightarrow> pystr \<Rightarrow> exn + json" where
  "AsyncHTTP_get E c path =
     (let r = client_get c path
      in if resp_status_code r div 100 \<noteq> 2 then Inl (araise_api_error E r)
         else json_loads E (resp_text r))"

definition AsyncHTTP_post_json ::
  "pyenv \<Rightarrow> Client \<Rightarrow> pystr \<Rightarrow> (pystr \<times> json) list \<Rightarrow> exn + json" where
  "AsyncHTTP_post_json E c path js =
     (let r = client_post c path js
      in if resp_status_code r div 100 \<noteq> 2 then Inl (araise_api_error E r)
         else json_loads E (resp_text r))"

definition AsyncHTTP_post_stream ::
  "Client \<Rightarrow> pystr \<Rightarrow> (pystr \<times> json) list \<Rightarrow> raw_line pygen" where
  "AsyncHTTP_post_stream c path js =
     (let resp = client_stream c path js
      in if resp_status_code resp div 100 \<noteq> 2 then
           (let body = resp_text resp;
                msg = body
            in Raise (raise_api_error_object (resp_status_code resp) (JStr msg)
                        (Some (resp_url resp)) (Some (JObj js))))
         else nonempty_lines (iter_lines resp))"

subsection \<open>Construction\<close>

text \<open>
  \<open>_BaseHTTP.__init__\<close>: the key argument, or the environment variable when the
  argument is \<open>None\<close> or empty; an error when neither gives a non-empty key.  The
  environment is the map \<open>os.getenv\<close> reads.
\<close>

record BaseHTTP =
  api_key :: pystr
  base_url :: pystr
  timeout :: pyfloat

definition DEFAULT_BASE_URL :: pystr where
  "DEFAULT_BASE_URL = str ''https://api.publicai.co''"

definition str_or :: "pystr option \<Rightarrow> pystr option \<Rightarrow> pystr option" where
  "str_or a b = (case a of None \<Rightarrow> b | Some s \<Rightarrow> if s = [] then b else Some s)"

definition rstrip_slash :: "pystr \<Rightarrow> pystr" where
  "rstrip_slash s = rev (dropWhile (\<lambda>c. c = 47) (rev s))"

definition BaseHTTP_init ::
  "(pystr \<rightharpoonup> pystr) \<Rightarrow> pystr option \<Rightarrow> pystr \<Rightarrow> pyfloat \<Rightarrow> exn + BaseHTTP" where
  "BaseHTTP_init environ key burl tmo =
     (case str_or key (environ (str ''APERTUS_API_KEY'')) of
        None \<Rightarrow>
          Inl (ValueError (str ''API key is required. Set APERTUS_API_KEY or pass api_key.''))
      | Some k \<Rightarrow>
          if k = [] then
            Inl (ValueError (str ''API key is required. Set APERTUS_API_KEY or pass api_key.''))
          else Inr \<lparr>api_key = k, base_url = rstrip_slash burl, timeout = tmo\<rparr>)"

text \<open>\<open>_headers\<close>: the headers every request carries.\<close>

definition headers :: "BaseHTTP \<Rightarrow> (pystr \<times> pystr) list" where
  "headers h =
     [(str ''Authorization'', str ''Bearer '' @ api_key h),
      (str ''Content-Type'', str ''application/json''),
      (str ''Accept'', str ''application/json'')]"

text \<open>
  \<open>SyncHTTP.__init__\<close> and \<open>AsyncHTTP.__init__\<close> run the base constructor and then
  build the client of the HTTP library from the base URL, the headers and the timeout.
  That constructor is the library's: \<open>new_client\<close> gives the exception it raises on
  these arguments, \<open>None\<close> when it returns a client.  It is called only after the key
  check has passed, and building a client sends nothing.
\<close>

type_synonym client_ctor = "pystr \<Rightarrow> (pystr \<times> pystr) list \<Rightarrow> pyfloat \<Rightarrow> exn option"

definition SyncHTTP_init ::
  "client_ctor \<Rightarrow> (pystr \<rightharpoonup> pystr) \<Rightarrow> pystr option \<Rightarrow> pystr \<Rightarrow> pyfloat \<Rightarrow> exn + BaseHTTP" where
  "SyncHTTP_init new_client environ key burl tmo =
     (case BaseHTTP_init environ key burl tmo of
        Inl e \<Rightarrow> Inl e
      | Inr h \<Rightarrow>
          (case new_client (base_url h) (headers h) (timeout h) of
             Some e \<Rightarrow> Inl e
           | None \<Rightarrow> Inr h))"

definition AsyncHTTP_init ::
  "client_ctor \<Rightarrow> (pystr \<rightharpoonup> pystr) \<Rightarrow> pystr option \<Rightarrow> pystr \<Rightarrow> pyfloat \<Rightarrow> exn + BaseHTTP" where
  "AsyncHTTP_init new_async_client environ key burl tmo =
     (case BaseHTTP_init environ key burl tmo of
        Inl e \<Rightarrow> Inl e
      | Inr h \<Rightarrow>
          (case new_async_client (base_url h) (headers h) (timeout h) of
             Some e \<Rightarrow> Inl e
           | None \<Rightarrow> Inr h))"

text \<open>
  \<open>Apertus.__init__\<close> and \<open>AsyncApertus.__init__\<close>: the transport, with the default
  base URL when none (or an empty one) is given; the sub-clients built after it only
  store the transport.
\<close>

definition Apertus_init ::
  "client_ctor \<Rightarrow> (pystr \<rightharpoonup> pystr) \<Rightarrow> pystr option \<Rightarrow> pystr option \<Rightarrow> pyfloat \<Rightarrow>
   exn + BaseHTTP" where
  "Apertus_init new_client environ key burl tmo =
     SyncHTTP_init new_client environ key
       (case str_or burl (Some DEFAULT_BASE_URL) of
          Some u \<Rightarrow> u | None \<Rightarrow> DEFAULT_BASE_URL) tmo"

definition AsyncApertus_init ::
  "client_ctor \<Rightarrow> (pystr \<rightharpoonup> pystr) \<Rightarrow> pystr option \<Rightarrow> pystr option \<Rightarrow> pyfloat \<Rightarrow>
   exn + BaseHTTP" where
  "AsyncApertus_init new_async_client environ key burl tmo =
     AsyncHTTP_init new_async_client environ key
       (case str_or burl (Some DEFAULT_BASE_URL) of
          Some u \<Rightarrow> u | None \<Rightarrow> DEFAULT_BASE_URL) tmo"

section \<open>The facade (\<open>client.py\<close>)\<close>

definition CHAT_COMPLETIONS_PATH :: pystr where
  "CHAT_COMPLETIONS_PATH = str ''/v1/chat/completions''"

definition ChatCompletions_stream ::
  "pyenv \<Rightarrow> Client \<Rightarrow> (pystr \<times> json) list \<Rightarrow>
   StreamEvent list \<times> outcome \<times> raw_line pygen" where
  "ChatCompletions_stream E c kwargs =
     (case stream_payload E kwargs of
        None \<Rightarrow> ([], Raised ValidationError, Stop)
      | Some pl \<Rightarrow> stream_loop E (SyncHTTP_post_stream c CHAT_COMPLETIONS_PATH pl))"

definition AsyncChatCompletions_stream ::
  "pyenv \<Rightarrow> Client \<Rightarrow> (pystr \<times> json) list \<Rightarrow>
   StreamEvent list \<times> outcome \<times> raw_line pygen" where
  "AsyncChatCompletions_stream E c kwargs =
     (case stream_payload E kwargs of
        None \<Rightarrow> ([], Raised ValidationError, Stop)
      | Some pl \<Rightarrow> astream_loop E (AsyncHTTP_post_stream c CHAT_COMPLETIONS_PATH pl))"

text \<open>
  \<open>create\<close> up to the response it gets back: the payload is built and posted, and the
  decoded body (or the error) is what \<open>ChatCompletion.model_validate\<close> is then given.
\<close>

definition ChatCompletions_create ::
  "pyenv \<Rightarrow> Client \<Rightarrow> (pystr \<times> json) list \<Rightarrow> exn + json" where
  "ChatCompletions_create E c kwargs =
     (case create_payload E kwargs of
        None \<Rightarrow> Inl ValidationError
      | Some pl \<Rightarrow> SyncHTTP_post_json E c CHAT_COMPLETIONS_PATH pl)"

section \<open>Vocabulary of the claims\<close>

text \<open>
  The payload of a line is what the loop body hands to the sentinel test and to
  \<open>json.loads\<close>: the decoded, stripped text without its \<open>data:\<close> prefix.  A line
  whose bytes do not decode, or that is blank, has none.
\<close>

definition payload_of :: "raw_line \<Rightarrow> pystr option" where
  "payload_of line =
     (case (case line of Bytes b \<Rightarrow> decode_utf8 b | Text t \<Rightarrow> Some t) of
        None \<Rightarrow> None
      | Some t \<Rightarrow>
          if strip t = [] then None
          else if startswith (strip t) (str ''data:'')
            then Some (strip (drop (length (str ''data:'')) (strip t)))
          else Some (strip t))"

text \<open>
  A valid frame carries a chunk: its payload is not the sentinel, is JSON, and
  validates as \<open>ChatCompletionChunk\<close>.  A frame is malformed JSON when its payload is
  not the sentinel and \<open>json.loads\<close> raises \<open>JSONDecodeError\<close> on it.  A blank line
  is text, or bytes that decode to text, with nothing but whitespace.  A sentinel
  line has the payload \<open>[DONE]\<close>.
\<close>

definition frame_chunk :: "pyenv \<Rightarrow> raw_line \<Rightarrow> ChatCompletionChunk option" where
  "frame_chunk E line =
     (case payload_of line of
        None \<Rightarrow> None
      | Some p \<Rightarrow>
          if p = str ''[DONE]'' then None
          else (case json_loads E p of
                  Inl e \<Rightarrow> None
                | Inr obj \<Rightarrow> ChatCompletionChunk_validate E obj))"

definition malformed_json :: "pyenv \<Rightarrow> raw_line \<Rightarrow> bool" where
  "malformed_json E line =
     (case payload_of line of
        None \<Rightarrow> False
      | Some p \<Rightarrow> p \<noteq> str ''[DONE]'' \<and> json_loads E p = Inl JSONDecodeError)"

definition blank_line :: "raw_line \<Rightarrow> bool" where
  "blank_line line =
     (case (case line of Bytes b \<Rightarrow> decode_utf8 b | Text t \<Rightarrow> Some t) of
        None \<Rightarrow> False
      | Some t \<Rightarrow> strip t = [])"

definition sentinel :: "raw_line \<Rightarrow> bool" where
  "sentinel line = (payload_of line = Some (str ''[DONE]''))"

text \<open>A line source that yields the given lines and then goes on as \<open>rest\<close>.\<close>

definition feed :: "raw_line list \<Rightarrow> raw_line pygen \<Rightarrow> raw_line pygen" where
  "feed ls rest = foldr Yield ls rest"

text \<open>
  The optional fields of \<open>ChatCompletionRequest\<close>.  A value given for a field is
  native when it already has the type the field declares; validation then has nothing
  to convert.  \<open>converted\<close> is what validation followed by \<open>model_dump\<close> makes of a
  value given for a field other than \<open>messages\<close>.
\<close>

definition optional_fields :: "string list" where
  "optional_fields =
     [''temperature'', ''top_p'', ''n'', ''stream'', ''stop'', ''max_tokens'',
      ''presence_penalty'', ''frequency_penalty'', ''logit_bias'', ''user'', ''tools'',
      ''tool_choice'']"





definition converted :: "pyenv \<Rightarrow> string \<Rightarrow> json \<Rightarrow> json option" where
  "converted E k v =
     (if k \<in> set [''temperature'', ''top_p'', ''presence_penalty'', ''frequency_penalty'']
        then map_option JFloat (validate_float E v)
      else if k \<in> set [''n'', ''max_tokens''] then map_option JInt (validate_int E v)
      else if k = ''stream'' then map_option JBool (validate_bool E v)
      else if k = ''stop'' then map_option dump_str_or_list (validate_str_or_list v)
      else if k = ''logit_bias'' then map_option dump_float_dict (validate_float_dict E v)
      else if k = ''tools''
        then map_option (\<lambda>ts. JArr (map JObj ts)) (validate_list validate_dict v)
      else if k = ''tool_choice'' then map_option dump_str_or_dict (validate_str_or_dict v)
      else if k = ''model'' \<or> k = ''user'' then map_option JStr (validate_str v)
      else None)"

section \<open>Sample inputs\<close>

text \<open>
  An environment to run the definitions in: the default limits of CPython, and
  conversions that are exact on the values the samples use (integers, and decimals
  that are floats as they stand): an int from a float that has no fractional part or
  from a string of digits with an optional sign, a float from an int or from a
  plain decimal string, a bool from the words pydantic lists.
\<close>

definition str_as_int :: "pystr \<Rightarrow> int option" where
  "str_as_int s =
     (let t = strip s;
          neg = (take 1 t = [45]);
          ds = (if take 1 t = [45] \<or> take 1 t = [43] then drop 1 t else t)
      in if ds \<noteq> [] \<and> list_all isdigit ds
         then Some ((if neg then - 1 else 1) * digits_val ds)
         else None)"

definition float_as_int :: "pyfloat \<Rightarrow> int option" where
  "float_as_int f =
     (case f of
        Finite m e \<Rightarrow>
          if 0 \<le> e then Some (m * 10 ^ nat e)
          else if m mod 10 ^ nat (- e) = 0 then Some (m div 10 ^ nat (- e))
          else None
      | _ \<Rightarrow> None)"

definition str_as_float :: "pystr \<Rightarrow> pyfloat option" where
  "str_as_float s =
     (let t = strip s;
          neg = (take 1 t = [45]);
          sg = (if neg then - 1 else 1 :: int)
      in case match_digits (if neg then drop 1 t else t) of
           None \<Rightarrow> None
         | Some (ipart, r1) \<Rightarrow>
             (case match_frac r1 of
                None \<Rightarrow> if r1 = [] then Some (Finite (sg * digits_val ipart) 0) else None
              | Some (frac, r2) \<Rightarrow>
                  if r2 = []
                  then Some (Finite (sg * digits_val (ipart @ frac)) (- int (length frac)))
                  else None))"

definition lower :: "pystr \<Rightarrow> pystr" where
  "lower s = map (\<lambda>c. if 65 \<le> c \<and> c \<le> 90 then c + 32 else c) s"

definition str_as_bool :: "pystr \<Rightarrow> bool option" where
  "str_as_bool s =
     (if lower s \<in> set (map str [''0'', ''off'', ''f'', ''false'', ''n'', ''no''])
        then Some False
      else if lower s \<in> set (map str [''1'', ''on'', ''t'', ''true'', ''y'', ''yes''])
        then Some True
      else None)"

definition sample_env :: pyenv where
  "sample_env =
     \<lparr>recursion_depth = 1000, max_str_digits = 4300,
      float_of_decimal = Finite,
      float_of_int = (\<lambda>i. Some (Finite i 0)),
      int_of_float = float_as_int,
      int_of_str = str_as_int,
      float_of_str = str_as_float,
      bool_of_str = str_as_bool\<rparr>"

text \<open>
  A client constructor to run the definitions with: the HTTP library encodes header
  names and values as ASCII and raises \<open>UnicodeEncodeError\<close> on a character outside
  it; the sample takes every other argument as accepted.
\<close>

definition sample_new_client :: client_ctor where
  "sample_new_client burl hs tmo =
     (if list_all (\<lambda>kv. list_all (\<lambda>c. c < 128) (fst kv) \<and> list_all (\<lambda>c. c < 128) (snd kv)) hs
      then None else Some UnicodeEncodeError)"

text \<open>Concrete lines, arguments and clients.\<close>

definition no_environ :: "pystr \<rightharpoonup> pystr" where
  "no_environ var = None"

definition sample_key :: pystr where
  "sample_key = [233]"

definition sample_empty_choices :: raw_line where
  "sample_empty_choices = Text (str ''data: {\"choices\":[]}'')"

definition sample_delta :: raw_line where
  "sample_delta = Bytes ''data: {\"choices\":[{\"index\":0,\"delta\":{\"content\":\"he\"}}]}''"

definition sample_keepalive :: raw_line where
  "sample_keepalive = Text (str '': keepalive'')"

definition sample_done :: raw_line where
  "sample_done = Text (str ''data: [DONE]'')"

definition sample_no_choices :: raw_line where
  "sample_no_choices = Text (str ''data: {\"id\":\"x\"}'')"

definition sample_kwargs :: "(pystr \<times> json) list" where
  "sample_kwargs =
     [(str ''model'', JStr (str ''x'')),
      (str ''messages'',
       JArr [JObj [(str ''role'', JStr (str ''user'')), (str ''content'', JStr (str ''hi''))]])]"

definition sample_kwargs_stream :: "(pystr \<times> json) list" where
  "sample_kwargs_stream = sample_kwargs @ [(str ''stream'', JBool True)]"

definition sample_kwargs_mixed :: "(pystr \<times> json) list" where
  "sample_kwargs_mixed =
     sample_kwargs @
     [(str ''temperature'', JFloat (Finite 5 (- 1))), (str ''n'', JStr (str ''3'')),
      (str ''user'', JNull), (str ''stream'', JBool False)]"

definition sample_blank :: raw_line where
  "sample_blank = Text (str ''   '')"

definition sample_bad_bytes :: raw_line where
  "sample_bad_bytes = Bytes [CHR 0xFF, CHR 0xFE]"

definition sample_response :: "int \<Rightarrow> pystr \<Rightarrow> pystr \<Rightarrow> Response" where
  "sample_response status body u =
     \<lparr>resp_status_code = status, resp_text = body, resp_url = u\<rparr>"

definition sample_client :: "int \<Rightarrow> pystr \<Rightarrow> raw_line pygen \<Rightarrow> Client" where
  "sample_client status body src =
     \<lparr>client_get = (\<lambda>path. sample_response status body path),
      client_post = (\<lambda>path js. sample_response status body path),
      client_stream = (\<lambda>path js.
        \<lparr>resp_status_code = status, resp_text = body, resp_url = path, iter_lines = src\<rparr>)\<rparr>"

section \<open>Properties\<close>

subsection \<open>The scanner uses up its input\<close>

text \<open>
  Every part of the scanner returns no more input than it was given, and a string
  body strictly less.  So the fuel bounds nothing: with more than two units for every
  character left, the scanner never runs out.
\<close>

lemma skip_ws_length: "length (skip_ws s) \<le> length s"
  by (simp add: skip_ws_def length_dropWhile_le)

lemma scanstring_length: "scanstring acc s = Some (v, r) \<Longrightarrow> length r < length s"
proof (induction "length s" arbitrary: acc s rule: less_induct)
  case less
  show ?case
  proof (cases s)
    case Nil
    with less.prems show ?thesis by simp
  next
    case (Cons c cs)
    have rec: "length r < Suc (length cs)"
      if "scanstring acc' s' = Some (v, r)" and "length s' \<le> length cs" for acc' s'
      using less.hyps [of s' acc'] that Cons by simp
    from less.prems show ?thesis
      unfolding Cons
      by (auto split: if_splits list.splits option.splits dest!: rec)
  qed
qed

lemma dropWhile_length_Suc: "length (dropWhile P xs) \<le> Suc (length xs)"
  using length_dropWhile_le [of P xs] by simp

lemma dropWhile_drop_length_Suc: "length (dropWhile P (drop n xs)) \<le> Suc (length xs)"
  using length_dropWhile_le [of P "drop n xs"] by simp

lemma match_digits_length: "match_digits s = Some (ds, r) \<Longrightarrow> length r \<le> length s"
  by (auto simp: match_digits_def dropWhile_length_Suc split: list.splits if_splits)

lemma match_frac_length: "match_frac s = Some (ds, r) \<Longrightarrow> length r \<le> length s"
  by (auto simp: match_frac_def dropWhile_length_Suc split: list.splits if_splits)

lemma match_exp_length: "match_exp s = Some (ex, r) \<Longrightarrow> length r \<le> length s"
  by (auto simp: match_exp_def Let_def dropWhile_length_Suc dropWhile_drop_length_Suc
        split: list.splits if_splits)

lemma match_number_length: "match_number E s = Some (x, r) \<Longrightarrow> length r \<le> length s"
proof -
  assume a: "match_number E s = Some (x, r)"
  define s0 where "s0 = (if take 1 s = [45] then drop 1 s else s)"
  have s0: "length s0 \<le> length s" by (simp add: s0_def)
  from a obtain ip r1 where m: "match_digits s0 = Some (ip, r1)"
    by (auto simp: match_number_def Let_def s0_def split: option.splits)
  from match_digits_length [OF m] s0 have r1: "length r1 \<le> length s" by simp
  from a m have "r = r1 \<or> (\<exists>ex. match_exp r1 = Some (ex, r)) \<or>
      (\<exists>fr r2. match_frac r1 = Some (fr, r2) \<and> (r = r2 \<or> (\<exists>ex. match_exp r2 = Some (ex, r))))"
    by (auto simp: match_number_def Let_def s0_def split: option.splits)
  then show ?thesis
    using r1 by (auto dest!: match_exp_length match_frac_length)
qed

lemma skip_ws_Cons: "skip_ws r = d # r' \<Longrightarrow> length r' < length r"
  using skip_ws_length [of r] by simp

lemma scan_length:
  "(scan_once E f d s = Ok v r \<longrightarrow> length r \<le> length s) \<and>
   (JSONArray E f d vs s = Ok v r \<longrightarrow> length r \<le> length s) \<and>
   (JSONObject E f d kvs s = Ok v r \<longrightarrow> length r \<le> length s)"
proof (induction f arbitrary: d s v r vs kvs)
  case 0
  show ?case by simp
next
  case (Suc n)
  have S: "length r \<le> length s" if "scan_once E n d s = Ok v r" for d s v r
    using Suc that by blast
  have A: "length r \<le> length s" if "JSONArray E n d vs s = Ok v r" for d s v r vs
    using Suc that by blast
  have B: "length r \<le> length s" if "JSONObject E n d kvs s = Ok v r" for d s v r kvs
    using Suc that by blast
  have 1: "length r \<le> length s" if a: "scan_once E (Suc n) d s = Ok v r"
  proof (cases s)
    case Nil
    with a show ?thesis by simp
  next
    case (Cons c cs)
    have w: "length (skip_ws cs) \<le> length cs" by (rule skip_ws_length)
    from a w show ?thesis
      unfolding Cons
      by (auto split: if_splits option.splits prod.splits sum.splits
            dest!: A B scanstring_length match_number_length)
  qed
  have 2: "length r \<le> length s" if a: "JSONArray E (Suc n) d vs s = Ok v r"
  proof -
    from a obtain v1 r1 c r' where s: "scan_once E n d s = Ok v1 r1"
      and w: "skip_ws r1 = c # r'"
      and k: "r = r' \<or> JSONArray E n d (v1 # vs) (skip_ws r') = Ok v r"
      by (auto split: pres.splits list.splits if_splits)
    from k have "length r \<le> length r'"
      using A [of d "v1 # vs" "skip_ws r'" v r] skip_ws_length [of r'] by auto
    with S [OF s] skip_ws_Cons [OF w] show ?thesis by simp
  qed
  have 3: "length r \<le> length s" if a: "JSONObject E (Suc n) d kvs s = Ok v r"
  proof -
    from a obtain q s1 key r0 col r1 v1 r2 c r'
      where s: "s = q # s1" and k: "scanstring [] s1 = Some (key, r0)"
        and w0: "skip_ws r0 = col # r1"
        and v: "scan_once E n d (skip_ws r1) = Ok v1 r2"
        and w: "skip_ws r2 = c # r'"
        and e: "r = r' \<or> JSONObject E n d ((key, v1) # kvs) (skip_ws r') = Ok v r"
      by (auto split: pres.splits list.splits if_splits option.splits)
    from e have "length r \<le> length r'"
      using B [of d "(key, v1) # kvs" "skip_ws r'" v r] skip_ws_length [of r'] by auto
    with S [OF v] skip_ws_Cons [OF w] skip_ws_Cons [OF w0] scanstring_length [OF k] s
      skip_ws_length [of r1]
    show ?thesis by simp
  qed
  from 1 2 3 show ?case by blast
qed

lemma scan_fuel:
  "(2 * length s < f \<longrightarrow> scan_once E f d s \<noteq> Fuel) \<and>
   (2 * length s + 1 < f \<longrightarrow> JSONArray E f d vs s \<noteq> Fuel) \<and>
   (2 * length s + 1 < f \<longrightarrow> JSONObject E f d kvs s \<noteq> Fuel)"
proof (induction f arbitrary: d s vs kvs)
  case 0
  show ?case by simp
next
  case (Suc n)
  have S: "scan_once E n d s \<noteq> Fuel" if "2 * length s < n" for d s
    using Suc that by blast
  have A: "JSONArray E n d vs s \<noteq> Fuel" if "2 * length s + 1 < n" for d s vs
    using Suc that by blast
  have B: "JSONObject E n d kvs s \<noteq> Fuel" if "2 * length s + 1 < n" for d s kvs
    using Suc that by blast
  have 1: "scan_once E (Suc n) d s \<noteq> Fuel" if a: "2 * length s < Suc n"
  proof (cases s)
    case Nil
    show ?thesis unfolding Nil by simp
  next
    case (Cons c cs)
    from a Cons skip_ws_length [of cs] have "2 * length (skip_ws cs) + 1 < n" by simp
    from A [OF this] B [OF this] show ?thesis
      unfolding Cons
      by (simp split: option.split prod.split sum.split)
  qed
  have 2: "JSONArray E (Suc n) d vs s \<noteq> Fuel" if a: "2 * length s + 1 < Suc n"
  proof -
    from a have "2 * length s < n" by simp
    from S [OF this] have s: "scan_once E n d s \<noteq> Fuel" .
    have "JSONArray E n d (v1 # vs) (skip_ws r') \<noteq> Fuel"
      if v: "scan_once E n d s = Ok v1 r1" and w: "skip_ws r1 = c # r'" for v1 r1 c r'
    proof -
      from scan_length [of E n d s v1 r1] v have "length r1 \<le> length s" by blast
      with skip_ws_Cons [OF w] skip_ws_length [of r'] a
      have "2 * length (skip_ws r') + 1 < n" by simp
      then show ?thesis by (rule A)
    qed
    with s show ?thesis
      by (simp split: pres.split list.split)
  qed
  have 3: "JSONObject E (Suc n) d kvs s \<noteq> Fuel" if a: "2 * length s + 1 < Suc n"
  proof (cases "\<exists>s1 key r0 r1. s = 34 # s1 \<and> scanstring [] s1 = Some (key, r0) \<and>
                  skip_ws r0 = 58 # r1")
    case False
    then show ?thesis
      by (auto split: list.split option.split)
  next
    case True
    then obtain s1 key r0 r1 where s: "s = 34 # s1"
      and k: "scanstring [] s1 = Some (key, r0)" and w0: "skip_ws r0 = 58 # r1"
      by blast
    from scanstring_length [OF k] skip_ws_Cons [OF w0] skip_ws_length [of r1] s
    have l: "length (skip_ws r1) + 3 \<le> length s" by simp
    with a have "2 * length (skip_ws r1) < n" by simp
    from S [OF this] have v: "scan_once E n d (skip_ws r1) \<noteq> Fuel" .
    have "JSONObject E n d ((key, v1) # kvs) (skip_ws r') \<noteq> Fuel"
      if v: "scan_once E n d (skip_ws r1) = Ok v1 r2" and w: "skip_ws r2 = c # r'"
      for v1 r2 c r'
    proof -
      from scan_length [of E n d "skip_ws r1" v1 r2] v
      have "length r2 \<le> length (skip_ws r1)" by blast
      with skip_ws_Cons [OF w] skip_ws_length [of r'] a l
      have "2 * length (skip_ws r') + 1 < n" by simp
      then show ?thesis by (rule B)
    qed
    with v show ?thesis
      unfolding s
      by (simp add: k w0 split: pres.split list.split)
  qed
  from 1 2 3 show ?case by blast
qed

text \<open>The fuel that \<open>json_loads\<close> supplies is enough for every input.\<close>

lemma json_loads_fuel:
  "scan_once E (2 * length s + 2) (recursion_depth E) (skip_ws s) \<noteq> Fuel"
proof -
  from skip_ws_length [of s] have "2 * length (skip_ws s) < 2 * length s + 2" by simp
  with scan_fuel [of "skip_ws s" "2 * length s + 2" E "recursion_depth E"]
  show ?thesis by blast
qed

subsection \<open>Blocking and asynchronous decoding\<close>

lemma astream_body_eq: "astream_body E line = stream_body E line"
  by (simp add: astream_body_def stream_body_def)

lemma astream_loop_eq: "astream_loop E src = stream_loop E src"
  by (induction src) (simp_all add: astream_body_eq split: step.split)

lemma AsyncHTTP_post_stream_eq: "AsyncHTTP_post_stream c p js = SyncHTTP_post_stream c p js"
  by (simp add: AsyncHTTP_post_stream_def SyncHTTP_post_stream_def Let_def)

text \<open>
  C7.  For every line source the blocking and the concurrent decoder give the same
  events, end in the same way and raise the same exception; and so do the two
  \<open>stream\<close> methods on the same client and arguments.
\<close>

theorem C7_sync_async_equivalent:
  "astream_loop E src = stream_loop E src \<and>
   AsyncChatCompletions_stream E c kwargs = ChatCompletions_stream E c kwargs"
  by (simp add: astream_loop_eq AsyncHTTP_post_stream_eq
        AsyncChatCompletions_stream_def ChatCompletions_stream_def split: option.split)

subsection \<open>The loop body by kind of line\<close>

lemma DONE_not_data: "\<not> startswith (str ''[DONE]'') (str ''data:'')"
  by (simp add: startswith_def str_def)

lemma DONE_not_empty: "str ''[DONE]'' \<noteq> []"
  by (simp add: str_def)

lemma stream_body_payload:
  "stream_body E line =
     (case (case line of Bytes b \<Rightarrow> decode_utf8 b | Text t \<Rightarrow> Some t) of
        None \<Rightarrow> Throw UnicodeDecodeError
      | Some t \<Rightarrow>
          (case payload_of line of
             None \<Rightarrow> Continue
           | Some p \<Rightarrow>
               if p = str ''[DONE]'' then Break
               else (case json_loads E p of
                       Inl e \<Rightarrow> (if e = JSONDecodeError then Continue else Throw e)
                     | Inr obj \<Rightarrow>
                         (case ChatCompletionChunk_validate E obj of
                            None \<Rightarrow> Throw ValidationError
                          | Some chunk \<Rightarrow> Emit (project chunk)))))"
  by (auto simp: stream_body_def payload_of_def Let_def DONE_not_data DONE_not_empty
      split: option.split)

lemma payload_decodes:
  "payload_of line = Some p \<Longrightarrow>
   \<exists>t. (case line of Bytes b \<Rightarrow> decode_utf8 b | Text t \<Rightarrow> Some t) = Some t"
  by (auto simp: payload_of_def split: option.splits)

lemma stream_body_frame:
  "frame_chunk E line = Some c \<Longrightarrow> stream_body E line = Emit (project c)"
  using payload_decodes [of line]
  by (auto simp: stream_body_payload frame_chunk_def
      split: option.splits if_splits sum.splits)

lemma stream_body_malformed: "malformed_json E line \<Longrightarrow> stream_body E line = Continue"
  using payload_decodes [of line]
  by (auto simp: stream_body_payload malformed_json_def split: option.splits)

lemma stream_body_blank: "blank_line line \<Longrightarrow> stream_body E line = Continue"
  by (auto simp: stream_body_def blank_line_def split: option.splits)

lemma stream_body_sentinel: "sentinel line \<Longrightarrow> stream_body E line = Break"
  using payload_decodes [of line]
  by (auto simp: stream_body_payload sentinel_def split: option.splits)

lemma stream_body_invalid:
  "payload_of line = Some p \<Longrightarrow> p \<noteq> str ''[DONE]'' \<Longrightarrow> json_loads E p = Inr obj \<Longrightarrow>
   ChatCompletionChunk_validate E obj = None \<Longrightarrow> stream_body E line = Throw ValidationError"
  using payload_decodes [of line p]
  by (auto simp: stream_body_payload split: option.splits)

subsection \<open>The loop over a line source\<close>

lemma stream_loop_feed_Cons:
  "stream_loop E (feed (l # ls) rest) =
     (case stream_body E l of
        Continue \<Rightarrow> stream_loop E (feed ls rest)
      | Break \<Rightarrow> ([], Sentinel, feed ls rest)
      | Throw e \<Rightarrow> ([], Raised e, feed ls rest)
      | Emit ev \<Rightarrow>
          (case stream_loop E (feed ls rest) of
             (evs, out, unread) \<Rightarrow> (ev # evs, out, unread)))"
  by (simp add: feed_def split: step.split)

lemma feed_Nil: "feed [] rest = rest"
  by (simp add: feed_def)

lemma malformed_no_chunk: "malformed_json E l \<Longrightarrow> frame_chunk E l = None"
  by (auto simp: malformed_json_def frame_chunk_def split: option.splits)

lemma blank_no_chunk: "blank_line l \<Longrightarrow> frame_chunk E l = None"
  by (auto simp: blank_line_def frame_chunk_def payload_of_def split: option.splits)

lemma stream_loop_until_sentinel:
  assumes "\<forall>l\<in>set pre. frame_chunk E l \<noteq> None \<or> malformed_json E l \<or> blank_line l"
    and "sentinel s"
  shows "stream_loop E (feed (pre @ [s]) rest) =
           (map project (List.map_filter (frame_chunk E) pre), Sentinel, rest)"
  using assms
proof (induction pre)
  case Nil
  then show ?case
    by (simp add: stream_loop_feed_Cons feed_Nil stream_body_sentinel)
next
  case (Cons l pre)
  then have IH: "stream_loop E (feed (pre @ [s]) rest) =
           (map project (List.map_filter (frame_chunk E) pre), Sentinel, rest)"
    by simp
  from Cons.prems
  consider "frame_chunk E l \<noteq> None" | "malformed_json E l" | "blank_line l"
    by auto
  then show ?case
  proof cases
    case 1
    then obtain c where c: "frame_chunk E l = Some c" by auto
    then show ?thesis
      by (simp add: stream_loop_feed_Cons stream_body_frame IH)
  next
    case 2
    then show ?thesis
      by (simp add: stream_loop_feed_Cons stream_body_malformed IH malformed_no_chunk)
  next
    case 3
    then show ?thesis
      by (simp add: stream_loop_feed_Cons stream_body_blank IH blank_no_chunk)
  qed
qed

lemma length_map_filter:
  "length (List.map_filter f xs) = length (filter (\<lambda>x. f x \<noteq> None) xs)"
  by (simp add: List.map_filter_def)

text \<open>
  C1, as the code has it.  Let the line source yield the lines \<open>pre\<close>, each a valid
  frame, a frame on whose payload \<open>json.loads\<close> raises \<open>JSONDecodeError\<close>, or a
  blank line, in any order, then a sentinel line \<open>s\<close>, then anything (\<open>rest\<close>).  The
  decoder yields the events of the valid frames of \<open>pre\<close> in their order, as many as
  there are valid frames, ends on the sentinel, and leaves \<open>rest\<close> unread.  A
  malformed line of another kind (bytes that are not UTF-8, a payload on which
  \<open>json.loads\<close> raises \<open>RecursionError\<close> or \<open>ValueError\<close>) is not among the lines
  the statement is about: on it the loop raises.
\<close>

theorem C1_events_until_sentinel:
  assumes "\<forall>l\<in>set pre. frame_chunk E l \<noteq> None \<or> malformed_json E l \<or> blank_line l"
    and "sentinel s"
  shows "stream_loop E (feed (pre @ [s]) rest) =
           (map project (List.map_filter (frame_chunk E) pre), Sentinel, rest) \<and>
         length (fst (stream_loop E (feed (pre @ [s]) rest))) =
           length (filter (\<lambda>l. frame_chunk E l \<noteq> None) pre)"
  using stream_loop_until_sentinel [OF assms, of rest]
  by (simp add: length_map_filter)

theorem C1_events_until_sentinel_witness:
  "stream_loop sample_env
     (feed ([sample_empty_choices, sample_keepalive, sample_blank, sample_delta] @ [sample_done])
        (Yield sample_delta Stop)) =
     (map project
        (List.map_filter (frame_chunk sample_env)
           [sample_empty_choices, sample_keepalive, sample_blank, sample_delta]),
      Sentinel, Yield sample_delta Stop) \<and>
   length (fst (stream_loop sample_env
      (feed ([sample_empty_choices, sample_keepalive, sample_blank, sample_delta] @ [sample_done])
         (Yield sample_delta Stop)))) = 2"
proof -
  have h1: "\<forall>l\<in>set [sample_empty_choices, sample_keepalive, sample_blank, sample_delta].
              frame_chunk sample_env l \<noteq> None \<or> malformed_json sample_env l \<or> blank_line l"
    by code_simp
  have h2: "sentinel sample_done"
    by code_simp
  have n: "length (filter (\<lambda>l. frame_chunk sample_env l \<noteq> None)
             [sample_empty_choices, sample_keepalive, sample_blank, sample_delta]) = 2"
    by code_simp
  note t = C1_events_until_sentinel [OF h1 h2, of "Yield sample_delta Stop"]
  from t have a: "stream_loop sample_env
      (feed ([sample_empty_choices, sample_keepalive, sample_blank, sample_delta] @ [sample_done])
         (Yield sample_delta Stop)) =
     (map project
        (List.map_filter (frame_chunk sample_env)
           [sample_empty_choices, sample_keepalive, sample_blank, sample_delta]),
      Sentinel, Yield sample_delta Stop)"
    by (rule conjunct1)
  from t have "length (fst (stream_loop sample_env
      (feed ([sample_empty_choices, sample_keepalive, sample_blank, sample_delta] @ [sample_done])
         (Yield sample_delta Stop)))) =
     length (filter (\<lambda>l. frame_chunk sample_env l \<noteq> None)
       [sample_empty_choices, sample_keepalive, sample_blank, sample_delta])"
    by (rule conjunct2)
  then have b: "length (fst (stream_loop sample_env
      (feed ([sample_empty_choices, sample_keepalive, sample_blank, sample_delta] @ [sample_done])
         (Yield sample_delta Stop)))) = 2"
    using n by (rule trans)
  show ?thesis
    by (rule conjI [OF a b])
qed

text \<open>
  C1 as the claim states it fails.  Between two valid frames and before the sentinel
  stands a malformed frame, two bytes that are neither JSON nor UTF-8: the decoder
  yields the event of the first frame only and raises \<open>UnicodeDecodeError\<close>; the
  second valid frame and the sentinel are never read.
\<close>

theorem C1_counterexample:
  "frame_chunk sample_env sample_delta \<noteq> None \<and>
   frame_chunk sample_env sample_empty_choices \<noteq> None \<and>
   sentinel sample_done \<and>
   stream_loop sample_env
     (feed [sample_delta, sample_bad_bytes, sample_empty_choices, sample_done] Stop) =
     ([project (the (frame_chunk sample_env sample_delta))], Raised UnicodeDecodeError,
      feed [sample_empty_choices, sample_done] Stop)"
  by code_simp

text \<open>
  C3, as the code has it.  A frame that decodes to a valid chunk whose \<open>choices\<close> list
  is empty is not dropped: the decoder yields one event for it, with no delta, choice
  index 0 and the chunk as \<open>raw\<close>, and goes on with the next line.
\<close>

theorem C3_empty_choices_event:
  assumes "frame_chunk E l = Some c" and "choices c = []"
  shows "stream_loop E (Yield l rest) =
           (\<lparr>event_delta = None, choice_index = 0, raw = c\<rparr> # fst (stream_loop E rest),
            snd (stream_loop E rest))"
  using assms
  by (simp add: stream_body_frame project_def split: prod.split)

theorem C3_empty_choices_event_witness:
  "stream_loop sample_env (Yield sample_empty_choices (Yield sample_done Stop)) =
     (\<lparr>event_delta = None, choice_index = 0,
        raw = \<lparr>chunk_id = None, chunk_object = None, created = None, chunk_model = None,
                choices = []\<rparr>\<rparr>
      # fst (stream_loop sample_env (Yield sample_done Stop)),
      snd (stream_loop sample_env (Yield sample_done Stop)))"
proof -
  have h: "frame_chunk sample_env sample_empty_choices =
             Some \<lparr>chunk_id = None, chunk_object = None, created = None, chunk_model = None,
                   choices = []\<rparr>"
    by code_simp
  show ?thesis
    using C3_empty_choices_event [OF h, of "Yield sample_done Stop"] by simp
qed

text \<open>
  C3 as the claim states it fails: the frame \<open>data: {"choices":[]}\<close> alone makes the
  decoder yield an event.
\<close>

theorem C3_counterexample:
  "stream_loop sample_env (Yield sample_empty_choices Stop) =
     ([\<lparr>event_delta = None, choice_index = 0,
         raw = \<lparr>chunk_id = None, chunk_object = None, created = None, chunk_model = None,
                 choices = []\<rparr>\<rparr>],
      Exhausted, Stop)"
  by code_simp

text \<open>
  C5.  A line whose payload is JSON but not a valid chunk (a JSON object without
  \<open>choices\<close>, a JSON value that is not an object, or any other value the chunk model
  rejects) raises \<open>ValidationError\<close> out of the loop: nothing is yielded for it and the
  lines after it stay unread.
\<close>

lemma validate_without_choices:
  "(case obj of JObj d \<Rightarrow> map_of d (str ''choices'') = None | _ \<Rightarrow> True) \<Longrightarrow>
   ChatCompletionChunk_validate E obj = None"
  by (cases obj)
     (auto simp: ChatCompletionChunk_validate_def required_def split: Option.bind_splits)

theorem C5_schema_violation_raises:
  assumes "payload_of l = Some p" and "p \<noteq> str ''[DONE]''" and "json_loads E p = Inr obj"
    and "(case obj of JObj d \<Rightarrow> map_of d (str ''choices'') = None | _ \<Rightarrow> True) \<or>
         ChatCompletionChunk_validate E obj = None"
  shows "stream_loop E (Yield l rest) = ([], Raised ValidationError, rest)"
proof -
  from assms(4) have "ChatCompletionChunk_validate E obj = None"
    using validate_without_choices by blast
  with assms(1-3) have "stream_body E l = Throw ValidationError"
    by (rule stream_body_invalid)
  then show ?thesis by simp
qed

theorem C5_schema_violation_raises_witness:
  "stream_loop sample_env (Yield sample_no_choices (Yield sample_delta Stop)) =
     ([], Raised ValidationError, Yield sample_delta Stop)"
proof -
  have h1: "payload_of sample_no_choices = Some (str ''{\"id\":\"x\"}'')"
    by code_simp
  have h2: "str ''{\"id\":\"x\"}'' \<noteq> str ''[DONE]''"
    by code_simp
  have h3: "json_loads sample_env (str ''{\"id\":\"x\"}'') =
              Inr (JObj [(str ''id'', JStr (str ''x''))])"
    by code_simp
  have h4: "(case JObj [(str ''id'', JStr (str ''x''))] of
               JObj d \<Rightarrow> map_of d (str ''choices'') = None | _ \<Rightarrow> True) \<or>
            ChatCompletionChunk_validate sample_env (JObj [(str ''id'', JStr (str ''x''))]) = None"
    by code_simp
  show ?thesis
    by (rule C5_schema_violation_raises [OF h1 h2 h3 h4])
qed

text \<open>
  C8.  When the response is a success and its line source yields two valid frames and
  then raises, the caller of \<open>stream\<close> gets the two events of the frames, in order, and
  then the exception the line source raised.
\<close>

lemma frame_nonempty: "frame_chunk E l = Some c \<Longrightarrow> l \<noteq> Text [] \<and> l \<noteq> Bytes []"
  by (auto simp: frame_chunk_def payload_of_def strip_def decode_utf8_def)

theorem C8_transport_error_propagates:
  assumes "stream_payload E kwargs = Some pl"
    and "resp_status_code (client_stream c CHAT_COMPLETIONS_PATH pl) div 100 = 2"
    and "iter_lines (client_stream c CHAT_COMPLETIONS_PATH pl) =
           Yield l1 (Yield l2 (Raise err))"
    and "frame_chunk E l1 = Some c1" and "frame_chunk E l2 = Some c2"
  shows "ChatCompletions_stream E c kwargs = ([project c1, project c2], Raised err, Stop)"
  using assms frame_nonempty [OF assms(4)] frame_nonempty [OF assms(5)]
  by (simp add: ChatCompletions_stream_def SyncHTTP_post_stream_def stream_body_frame)

theorem C8_transport_error_propagates_witness:
  "ChatCompletions_stream sample_env
     (sample_client 200 []
        (Yield sample_empty_choices
           (Yield sample_delta (Raise (TransportError (str ''connection reset''))))))
     sample_kwargs =
   ([project \<lparr>chunk_id = None, chunk_object = None, created = None, chunk_model = None,
               choices = []\<rparr>,
     project \<lparr>chunk_id = None, chunk_object = None, created = None, chunk_model = None,
               choices = [\<lparr>index = 0, choice_message = None, finish_reason = None,
                           delta = Some \<lparr>delta_role = None,
                                         delta_content = Some (str ''he'')\<rparr>\<rparr>]\<rparr>],
    Raised (TransportError (str ''connection reset'')), Stop)"
proof -
  have h1: "stream_payload sample_env sample_kwargs =
              Some (the (stream_payload sample_env sample_kwargs))"
    by code_simp
  have h2: "resp_status_code
              (client_stream
                 (sample_client 200 []
                    (Yield sample_empty_choices
                       (Yield sample_delta (Raise (TransportError (str ''connection reset''))))))
                 CHAT_COMPLETIONS_PATH (the (stream_payload sample_env sample_kwargs)))
              div 100 = 2"
    by (simp add: sample_client_def)
  have h3: "iter_lines
              (client_stream
                 (sample_client 200 []
                    (Yield sample_empty_choices
                       (Yield sample_delta (Raise (TransportError (str ''connection reset''))))))
                 CHAT_COMPLETIONS_PATH (the (stream_payload sample_env sample_kwargs))) =
            Yield sample_empty_choices
              (Yield sample_delta (Raise (TransportError (str ''connection reset''))))"
    by (simp add: sample_client_def)
  have h4: "frame_chunk sample_env sample_empty_choices =
              Some \<lparr>chunk_id = None, chunk_object = None, created = None, chunk_model = None,
                    choices = []\<rparr>"
    by code_simp
  have h5: "frame_chunk sample_env sample_delta =
              Some \<lparr>chunk_id = None, chunk_object = None, created = None, chunk_model = None,
                    choices = [\<lparr>index = 0, choice_message = None, finish_reason = None,
                                delta = Some \<lparr>delta_role = None,
                                              delta_content = Some (str ''he'')\<rparr>\<rparr>]\<rparr>"
    by code_simp
  show ?thesis
    by (rule C8_transport_error_propagates [OF h1 h2 h3 h4 h5])
qed

subsection \<open>Errors of the transport\<close>

lemma loads_invalid_api_key:
  "json_loads sample_env (str ''{\"error\":\"invalid api key\"}'') =
     Inr (JObj [(str ''error'', JStr (str ''invalid api key''))])"
  by code_simp

lemma raise_api_error_invalid_api_key:
  "raise_api_error sample_env
     \<lparr>resp_status_code = 401, resp_text = str ''{\"error\":\"invalid api key\"}'',
      resp_url = u\<rparr> =
   APIError \<lparr>status_code = 401, message = JStr (str ''invalid api key''), url = Some u,
             payload = Some (JObj [(str ''error'', JStr (str ''invalid api key''))])\<rparr>"
  by (simp add: raise_api_error_def loads_invalid_api_key dict_get_def py_or_def truthy_def)
     (simp add: str_def)

lemma araise_api_error_eq: "araise_api_error E r = raise_api_error E r"
  by (simp add: araise_api_error_def raise_api_error_def)

text \<open>
  The blocking calls on a response with status 401 and body
  \<open>{"error":"invalid api key"}\<close>: \<open>_raise_api_error\<close>, and with it \<open>get\<close> and
  \<open>post_json\<close> of both transports, raise an error with status code 401 and message
  \<open>invalid api key\<close>.
\<close>

lemma invalid_api_key_blocking:
  "SyncHTTP_get sample_env
     (sample_client 401 (str ''{\"error\":\"invalid api key\"}'') src) path =
   Inl (APIError \<lparr>status_code = 401, message = JStr (str ''invalid api key''),
                  url = Some path,
                  payload = Some (JObj [(str ''error'', JStr (str ''invalid api key''))])\<rparr>) \<and>
   SyncHTTP_post_json sample_env
     (sample_client 401 (str ''{\"error\":\"invalid api key\"}'') src) path js =
   Inl (APIError \<lparr>status_code = 401, message = JStr (str ''invalid api key''),
                  url = Some path,
                  payload = Some (JObj [(str ''error'', JStr (str ''invalid api key''))])\<rparr>) \<and>
   AsyncHTTP_get sample_env
     (sample_client 401 (str ''{\"error\":\"invalid api key\"}'') src) path =
   Inl (APIError \<lparr>status_code = 401, message = JStr (str ''invalid api key''),
                  url = Some path,
                  payload = Some (JObj [(str ''error'', JStr (str ''invalid api key''))])\<rparr>) \<and>
   AsyncHTTP_post_json sample_env
     (sample_client 401 (str ''{\"error\":\"invalid api key\"}'') src) path js =
   Inl (APIError \<lparr>status_code = 401, message = JStr (str ''invalid api key''),
                  url = Some path,
                  payload = Some (JObj [(str ''error'', JStr (str ''invalid api key''))])\<rparr>)"
  by (simp add: SyncHTTP_get_def SyncHTTP_post_json_def AsyncHTTP_get_def
        AsyncHTTP_post_json_def araise_api_error_eq sample_client_def sample_response_def
        raise_api_error_invalid_api_key)

text \<open>
  C2, at a failing input.  For the same 401 response, \<open>post_json\<close> raises the error
  the body describes, while \<open>post_stream\<close> raises one whose message is the raw body
  and whose payload is the request that was sent.
\<close>

theorem C2_stream_error_differs:
  "SyncHTTP_post_json sample_env
     (sample_client 401 (str ''{\"error\":\"invalid api key\"}'') src) path js =
   Inl (APIError \<lparr>status_code = 401, message = JStr (str ''invalid api key''),
                  url = Some path,
                  payload = Some (JObj [(str ''error'', JStr (str ''invalid api key''))])\<rparr>) \<and>
   SyncHTTP_post_stream (sample_client 401 (str ''{\"error\":\"invalid api key\"}'') src) path js =
   Raise (APIError \<lparr>status_code = 401,
                    message = JStr (str ''{\"error\":\"invalid api key\"}''),
                    url = Some path, payload = Some (JObj js)\<rparr>) \<and>
   AsyncHTTP_post_stream (sample_client 401 (str ''{\"error\":\"invalid api key\"}'') src) path js =
   Raise (APIError \<lparr>status_code = 401,
                    message = JStr (str ''{\"error\":\"invalid api key\"}''),
                    url = Some path, payload = Some (JObj js)\<rparr>)"
  by (simp add: SyncHTTP_post_json_def SyncHTTP_post_stream_def AsyncHTTP_post_stream_def
        raise_api_error_object_def sample_client_def sample_response_def
        raise_api_error_invalid_api_key)

text \<open>
  C9, at a failing input.  A call of \<open>stream\<close> that is answered with status 401 and
  body \<open>{"error":"invalid api key"}\<close> raises, at the first element asked for, an error
  with status code 401 whose message is the whole body text, not \<open>invalid api key\<close>,
  whatever the environment.
\<close>

theorem C9_stream_invalid_api_key:
  "stream_payload sample_env sample_kwargs \<noteq> None \<and>
   ChatCompletions_stream E
     (sample_client 401 (str ''{\"error\":\"invalid api key\"}'') src) sample_kwargs =
   (case stream_payload E sample_kwargs of
      None \<Rightarrow> ([], Raised ValidationError, Stop)
    | Some pl \<Rightarrow>
        ([], Raised (APIError \<lparr>status_code = 401,
                                message = JStr (str ''{\"error\":\"invalid api key\"}''),
                                url = Some CHAT_COMPLETIONS_PATH,
                                payload = Some (JObj pl)\<rparr>), Stop))"
proof -
  have "stream_payload sample_env sample_kwargs \<noteq> None"
    by code_simp
  then show ?thesis
    by (simp add: ChatCompletions_stream_def SyncHTTP_post_stream_def
          raise_api_error_object_def sample_client_def split: option.split)
qed

subsection \<open>Construction\<close>

lemma BaseHTTP_init_cases:
  "BaseHTTP_init environ key burl tmo =
     (if (key = None \<or> key = Some []) \<and>
         (environ (str ''APERTUS_API_KEY'') = None \<or>
          environ (str ''APERTUS_API_KEY'') = Some [])
      then Inl (ValueError (str ''API key is required. Set APERTUS_API_KEY or pass api_key.''))
      else Inr \<lparr>api_key = (if key = None \<or> key = Some []
                             then the (environ (str ''APERTUS_API_KEY'')) else the key),
                base_url = rstrip_slash burl, timeout = tmo\<rparr>)"
  by (auto simp: BaseHTTP_init_def str_or_def split: option.splits)

text \<open>
  C10, as the code has it.  \<open>_BaseHTTP.__init__\<close> raises exactly when no key resolves:
  the \<open>api_key\<close> argument is \<open>None\<close> or empty and \<open>APERTUS_API_KEY\<close> is unset or
  empty.  The constructors of the transports and of the two clients raise that
  \<open>ValueError\<close> in that case, whatever the HTTP library would do, since its client is
  not built then.  When a key resolves they build the library's client from the base
  URL without trailing slashes, the headers with the key and the timeout, and they
  succeed exactly when that constructor does: its exception is theirs.
\<close>

theorem C10_constructor_key_check:
  "isl (BaseHTTP_init environ key burl tmo) =
     ((key = None \<or> key = Some []) \<and>
      (environ (str ''APERTUS_API_KEY'') = None \<or> environ (str ''APERTUS_API_KEY'') = Some [])) \<and>
   SyncHTTP_init new_client environ key burl tmo =
     (if (key = None \<or> key = Some []) \<and>
         (environ (str ''APERTUS_API_KEY'') = None \<or>
          environ (str ''APERTUS_API_KEY'') = Some [])
      then Inl (ValueError (str ''API key is required. Set APERTUS_API_KEY or pass api_key.''))
      else (case new_client (rstrip_slash burl)
                   (headers \<lparr>api_key = (if key = None \<or> key = Some []
                                          then the (environ (str ''APERTUS_API_KEY''))
                                          else the key),
                             base_url = rstrip_slash burl, timeout = tmo\<rparr>) tmo of
              Some e \<Rightarrow> Inl e
            | None \<Rightarrow>
                Inr \<lparr>api_key = (if key = None \<or> key = Some []
                                 then the (environ (str ''APERTUS_API_KEY'')) else the key),
                     base_url = rstrip_slash burl, timeout = tmo\<rparr>)) \<and>
   AsyncHTTP_init new_client environ key burl tmo =
     SyncHTTP_init new_client environ key burl tmo \<and>
   Apertus_init new_client environ key ourl tmo =
     SyncHTTP_init new_client environ key
       (if ourl = None \<or> ourl = Some [] then DEFAULT_BASE_URL else the ourl) tmo \<and>
   AsyncApertus_init new_client environ key ourl tmo =
     SyncHTTP_init new_client environ key
       (if ourl = None \<or> ourl = Some [] then DEFAULT_BASE_URL else the ourl) tmo"
proof -
  have url: "(case str_or ourl (Some DEFAULT_BASE_URL) of
                Some u \<Rightarrow> u | None \<Rightarrow> DEFAULT_BASE_URL) =
             (if ourl = None \<or> ourl = Some [] then DEFAULT_BASE_URL else the ourl)"
    by (cases ourl) (simp_all add: str_or_def)
  have a: "isl (BaseHTTP_init environ key burl tmo) =
     ((key = None \<or> key = Some []) \<and>
      (environ (str ''APERTUS_API_KEY'') = None \<or> environ (str ''APERTUS_API_KEY'') = Some []))"
    by (simp add: BaseHTTP_init_cases)
  have b: "SyncHTTP_init new_client environ key burl tmo =
     (if (key = None \<or> key = Some []) \<and>
         (environ (str ''APERTUS_API_KEY'') = None \<or>
          environ (str ''APERTUS_API_KEY'') = Some [])
      then Inl (ValueError (str ''API key is required. Set APERTUS_API_KEY or pass api_key.''))
      else (case new_client (rstrip_slash burl)
                   (headers \<lparr>api_key = (if key = None \<or> key = Some []
                                          then the (environ (str ''APERTUS_API_KEY''))
                                          else the key),
                             base_url = rstrip_slash burl, timeout = tmo\<rparr>) tmo of
              Some e \<Rightarrow> Inl e
            | None \<Rightarrow>
                Inr \<lparr>api_key = (if key = None \<or> key = Some []
                                 then the (environ (str ''APERTUS_API_KEY'')) else the key),
                     base_url = rstrip_slash burl, timeout = tmo\<rparr>))"
    unfolding SyncHTTP_init_def BaseHTTP_init_cases by simp
  have c: "AsyncHTTP_init new_client environ key burl tmo =
     SyncHTTP_init new_client environ key burl tmo"
    by (simp add: AsyncHTTP_init_def SyncHTTP_init_def)
  have d: "Apertus_init new_client environ key ourl tmo =
     SyncHTTP_init new_client environ key
       (if ourl = None \<or> ourl = Some [] then DEFAULT_BASE_URL else the ourl) tmo"
    unfolding Apertus_init_def url by (rule refl)
  have e: "AsyncApertus_init new_client environ key ourl tmo =
     SyncHTTP_init new_client environ key
       (if ourl = None \<or> ourl = Some [] then DEFAULT_BASE_URL else the ourl) tmo"
    unfolding AsyncApertus_init_def url AsyncHTTP_init_def SyncHTTP_init_def by (rule refl)
  from a b c d e show ?thesis by (intro conjI)
qed

text \<open>
  C10 as the claim states it fails.  With no environment variable set, a key of one
  character outside ASCII (code point 233) resolves, and the base constructor
  succeeds; the constructors of the transport and of the clients raise all the same,
  when the HTTP library encodes the Authorization header.
\<close>

theorem C10_counterexample:
  "str_or (Some sample_key) (no_environ (str ''APERTUS_API_KEY'')) = Some sample_key \<and>
   BaseHTTP_init no_environ (Some sample_key) DEFAULT_BASE_URL (Finite 30 0) =
     Inr \<lparr>api_key = sample_key, base_url = DEFAULT_BASE_URL, timeout = Finite 30 0\<rparr> \<and>
   SyncHTTP_init sample_new_client no_environ (Some sample_key) DEFAULT_BASE_URL (Finite 30 0) =
     Inl UnicodeEncodeError \<and>
   Apertus_init sample_new_client no_environ (Some sample_key) None (Finite 30 0) =
     Inl UnicodeEncodeError \<and>
   AsyncApertus_init sample_new_client no_environ (Some sample_key) None (Finite 30 0) =
     Inl UnicodeEncodeError"
  by code_simp

subsection \<open>The request payload\<close>

lemma str_inj [simp]: "(str a = str b) = (a = b)"
  by (simp add: str_def inj_map_eq_map inj_on_def)

lemma map_of_entry_Nil:
  "map_of (entry k f v) k' = (if k' = str k then map_option f v else None)"
  by (simp add: entry_def split: option.split)

lemma dump_lookup:
  "map_of (model_dump r) (str ''model'') = Some (JStr (model r))"
  "map_of (model_dump r) (str ''messages'') = Some (JArr (map ChatMessage_dump (messages r)))"
  "map_of (model_dump r) (str ''temperature'') = map_option JFloat (temperature r)"
  "map_of (model_dump r) (str ''top_p'') = map_option JFloat (top_p r)"
  "map_of (model_dump r) (str ''n'') = map_option JInt (num r)"
  "map_of (model_dump r) (str ''stream'') = map_option JBool (stream r)"
  "map_of (model_dump r) (str ''stop'') = map_option dump_str_or_list (stop r)"
  "map_of (model_dump r) (str ''max_tokens'') = map_option JInt (max_tokens r)"
  "map_of (model_dump r) (str ''presence_penalty'') = map_option JFloat (presence_penalty r)"
  "map_of (model_dump r) (str ''frequency_penalty'') = map_option JFloat (frequency_penalty r)"
  "map_of (model_dump r) (str ''logit_bias'') = map_option dump_float_dict (logit_bias r)"
  "map_of (model_dump r) (str ''user'') = map_option JStr (user r)"
  "map_of (model_dump r) (str ''tools'') = map_option (\<lambda>ts. JArr (map JObj ts)) (tools r)"
  "map_of (model_dump r) (str ''tool_choice'') = map_option dump_str_or_dict (tool_choice r)"
  by (simp_all add: model_dump_def map_add_def map_of_entry_Nil split: option.split)

lemma init_fields:
  assumes "ChatCompletionRequest_init E kw = Some r"
  shows "required validate_str (map_of kw (str ''model'')) = Some (model r)"
    and "required (validate_list ChatMessage_validate) (map_of kw (str ''messages'')) =
           Some (messages r)"
    and "optional (validate_float E) (map_of kw (str ''temperature'')) = Some (temperature r)"
    and "optional (validate_float E) (map_of kw (str ''top_p'')) = Some (top_p r)"
    and "optional (validate_int E) (map_of kw (str ''n'')) = Some (num r)"
    and "optional (validate_bool E) (map_of kw (str ''stream'')) = Some (stream r)"
    and "optional validate_str_or_list (map_of kw (str ''stop'')) = Some (stop r)"
    and "optional (validate_int E) (map_of kw (str ''max_tokens'')) = Some (max_tokens r)"
    and "optional (validate_float E) (map_of kw (str ''presence_penalty'')) =
           Some (presence_penalty r)"
    and "optional (validate_float E) (map_of kw (str ''frequency_penalty'')) =
           Some (frequency_penalty r)"
    and "optional (validate_float_dict E) (map_of kw (str ''logit_bias'')) = Some (logit_bias r)"
    and "optional validate_str (map_of kw (str ''user'')) = Some (user r)"
    and "optional (validate_list validate_dict) (map_of kw (str ''tools'')) = Some (tools r)"
    and "optional validate_str_or_dict (map_of kw (str ''tool_choice'')) =
           Some (tool_choice r)"
  using assms
  by (auto simp: ChatCompletionRequest_init_def Option.bind_eq_Some_conv)

lemma optional_Some:
  "optional f mv = Some x \<Longrightarrow>
   map_option g x =
     (case mv of None \<Rightarrow> None
      | Some v \<Rightarrow> if v = JNull then None else map_option g (f v))"
  by (auto simp: optional_def split: option.splits json.splits)



text \<open>An optional field of the payload is the conversion of the value given for it.\<close>

lemma optional_field_lookup:
  assumes "ChatCompletionRequest_init E kw = Some r" and "k \<in> set optional_fields"
  shows "map_of (model_dump r) (str k) =
           (case map_of kw (str k) of None \<Rightarrow> None
            | Some v \<Rightarrow> if v = JNull then None else converted E k v)"
proof -
  have f0: "map_of (model_dump r) (str ''temperature'') =
           (case map_of kw (str ''temperature'') of None \<Rightarrow> None
            | Some v \<Rightarrow> if v = JNull then None else converted E ''temperature'' v)"
    using optional_Some [OF init_fields(3) [OF assms(1)], of "JFloat"]
    by (simp add: dump_lookup converted_def split: option.split)
  have f1: "map_of (model_dump r) (str ''top_p'') =
           (case map_of kw (str ''top_p'') of None \<Rightarrow> None
            | Some v \<Rightarrow> if v = JNull then None else converted E ''top_p'' v)"
    using optional_Some [OF init_fields(4) [OF assms(1)], of "JFloat"]
    by (simp add: dump_lookup converted_def split: option.split)
  have f2: "map_of (model_dump r) (str ''n'') =
           (case map_of kw (str ''n'') of None \<Rightarrow> None
            | Some v \<Rightarrow> if v = JNull then None else converted E ''n'' v)"
    using optional_Some [OF init_fields(5) [OF assms(1)], of "JInt"]
    by (simp add: dump_lookup converted_def split: option.split)
  have f3: "map_of (model_dump r) (str ''stream'') =
           (case map_of kw (str ''stream'') of None \<Rightarrow> None
            | Some v \<Rightarrow> if v = JNull then None else converted E ''stream'' v)"
    using optional_Some [OF init_fields(6) [OF assms(1)], of "JBool"]
    by (simp add: dump_lookup converted_def split: option.split)
  have f4: "map_of (model_dump r) (str ''stop'') =
           (case map_of kw (str ''stop'') of None \<Rightarrow> None
            | Some v \<Rightarrow> if v = JNull then None else converted E ''stop'' v)"
    using optional_Some [OF init_fields(7) [OF assms(1)], of "dump_str_or_list"]
    by (simp add: dump_lookup converted_def split: option.split)
  have f5: "map_of (model_dump r) (str ''max_tokens'') =
           (case map_of kw (str ''max_tokens'') of None \<Rightarrow> None
            | Some v \<Rightarrow> if v = JNull then None else converted E ''max_tokens'' v)"
    using optional_Some [OF init_fields(8) [OF assms(1)], of "JInt"]
    by (simp add: dump_lookup converted_def split: option.split)
  have f6: "map_of (model_dump r) (str ''presence_penalty'') =
           (case map_of kw (str ''presence_penalty'') of None \<Rightarrow> None
            | Some v \<Rightarrow> if v = JNull then None else converted E ''presence_penalty'' v)"
    using optional_Some [OF init_fields(9) [OF assms(1)], of "JFloat"]
    by (simp add: dump_lookup converted_def split: option.split)
  have f7: "map_of (model_dump r) (str ''frequency_penalty'') =
           (case map_of kw (str ''frequency_penalty'') of None \<Rightarrow> None
            | Some v \<Rightarrow> if v = JNull then None else converted E ''frequency_penalty'' v)"
    using optional_Some [OF init_fields(10) [OF assms(1)], of "JFloat"]
    by (simp add: dump_lookup converted_def split: option.split)
  have f8: "map_of (model_dump r) (str ''logit_bias'') =
           (case map_of kw (str ''logit_bias'') of None \<Rightarrow> None
            | Some v \<Rightarrow> if v = JNull then None else converted E ''logit_bias'' v)"
    using optional_Some [OF init_fields(11) [OF assms(1)], of "dump_float_dict"]
    by (simp add: dump_lookup converted_def split: option.split)
  have f9: "map_of (model_dump r) (str ''user'') =
           (case map_of kw (str ''user'') of None \<Rightarrow> None
            | Some v \<Rightarrow> if v = JNull then None else converted E ''user'' v)"
    using optional_Some [OF init_fields(12) [OF assms(1)], of "JStr"]
    by (simp add: dump_lookup converted_def split: option.split)
  have f10: "map_of (model_dump r) (str ''tools'') =
           (case map_of kw (str ''tools'') of None \<Rightarrow> None
            | Some v \<Rightarrow> if v = JNull then None else converted E ''tools'' v)"
    using optional_Some [OF init_fields(13) [OF assms(1)], of "(\<lambda>ts. JArr (map JObj ts))"]
    by (simp add: dump_lookup converted_def split: option.split)
  have f11: "map_of (model_dump r) (str ''tool_choice'') =
           (case map_of kw (str ''tool_choice'') of None \<Rightarrow> None
            | Some v \<Rightarrow> if v = JNull then None else converted E ''tool_choice'' v)"
    using optional_Some [OF init_fields(14) [OF assms(1)], of "dump_str_or_dict"]
    by (simp add: dump_lookup converted_def split: option.split)
  from assms(2) have "k = ''temperature'' \<or> k = ''top_p'' \<or> k = ''n'' \<or> k = ''stream'' \<or> k = ''stop'' \<or>
    k = ''max_tokens'' \<or> k = ''presence_penalty'' \<or> k = ''frequency_penalty'' \<or> k = ''logit_bias'' \<or>
    k = ''user'' \<or> k = ''tools'' \<or> k = ''tool_choice''"
    by (simp add: optional_fields_def)
  then show ?thesis
    by (insert f0 f1 f2 f3 f4 f5 f6 f7 f8 f9 f10 f11, elim disjE; simp only:)
qed













lemma stream_flag_forced:
  assumes "stream_payload E kw = Some pl"
  shows "map_of pl (str ''stream'') = Some (JBool True)"
proof -
  from assms obtain r
    where r: "ChatCompletionRequest_init E (AList.update (str ''stream'') (JBool True) kw) = Some r"
      and pl: "pl = model_dump r"
    by (auto simp: stream_payload_def)
  from init_fields(6) [OF r] have "stream r = Some True"
    by (simp add: AList.update_conv' optional_def validate_bool_def)
  with pl show ?thesis by (simp add: dump_lookup)
qed



text \<open>
  C4, as the code has it.  \<open>create\<close> does not force the stream flag: its payload
  carries the caller's \<open>stream\<close> argument as validated, absent when the caller gives
  none (or \<open>None\<close>), and the caller's boolean when the caller gives one, so that
  \<open>stream=True\<close> is sent as true.  Every \<open>stream\<close> call whose arguments validate
  sends \<open>stream\<close> as true.
\<close>

theorem C4_stream_flag:
  "(create_payload E kwargs = Some pl \<longrightarrow>
      map_of pl (str ''stream'') =
        (case map_of kwargs (str ''stream'') of
           None \<Rightarrow> None
         | Some v \<Rightarrow> if v = JNull then None else map_option JBool (validate_bool E v))) \<and>
   (create_payload E kwargs = Some pl \<longrightarrow> map_of kwargs (str ''stream'') = Some (JBool b) \<longrightarrow>
      map_of pl (str ''stream'') = Some (JBool b)) \<and>
   (stream_payload E kwargs = Some pl' \<longrightarrow> map_of pl' (str ''stream'') = Some (JBool True))"
proof -
  have a: "map_of pl (str ''stream'') =
        (case map_of kwargs (str ''stream'') of
           None \<Rightarrow> None
         | Some v \<Rightarrow> if v = JNull then None else map_option JBool (validate_bool E v))"
    if "create_payload E kwargs = Some pl"
  proof -
    from that obtain r where r: "ChatCompletionRequest_init E kwargs = Some r"
      and pl: "pl = model_dump r"
      by (auto simp: create_payload_def)
    have "''stream'' \<in> set optional_fields"
      by (simp add: optional_fields_def)
    from optional_field_lookup [OF r this] show ?thesis
      by (simp add: pl converted_def split: option.split)
  qed
  have b: "map_of pl (str ''stream'') = Some (JBool b)"
    if "create_payload E kwargs = Some pl" and "map_of kwargs (str ''stream'') = Some (JBool b)"
    using a [OF that(1)] that(2) by (simp add: validate_bool_def)
  from a b stream_flag_forced [of E kwargs pl'] show ?thesis
    by blast
qed

theorem C4_stream_flag_witness:
  "create_payload sample_env sample_kwargs_stream \<noteq> None \<and>
   map_of (the (create_payload sample_env sample_kwargs_stream)) (str ''stream'') =
     Some (JBool True) \<and>
   stream_payload sample_env sample_kwargs_mixed \<noteq> None \<and>
   map_of (the (stream_payload sample_env sample_kwargs_mixed)) (str ''stream'') =
     Some (JBool True)"
proof -
  have h1: "create_payload sample_env sample_kwargs_stream =
              Some (the (create_payload sample_env sample_kwargs_stream))"
    by code_simp
  have h2: "map_of sample_kwargs_stream (str ''stream'') = Some (JBool True)"
    by code_simp
  have h3: "stream_payload sample_env sample_kwargs_mixed =
              Some (the (stream_payload sample_env sample_kwargs_mixed))"
    by code_simp
  note t = C4_stream_flag [of sample_env sample_kwargs_stream
      "the (create_payload sample_env sample_kwargs_stream)" True]
  note u = C4_stream_flag [of sample_env sample_kwargs_mixed _ _
      "the (stream_payload sample_env sample_kwargs_mixed)"]
  have a: "map_of (the (create_payload sample_env sample_kwargs_stream))
      (str ''stream'') = Some (JBool True)"
    by (rule t [THEN conjunct2, THEN conjunct1, THEN mp, OF h1, THEN mp, OF h2])
  have b: "map_of (the (stream_payload sample_env sample_kwargs_mixed))
      (str ''stream'') = Some (JBool True)"
    by (rule u [THEN conjunct2, THEN conjunct2, THEN mp, OF h3])
  have c: "create_payload sample_env sample_kwargs_stream \<noteq> None"
    by code_simp
  have d: "stream_payload sample_env sample_kwargs_mixed \<noteq> None"
    by code_simp
  show ?thesis
    by (intro conjI) (rule c, rule a, rule d, rule b)
qed

text \<open>
  C4 as the claim states it fails: \<open>create\<close> called with \<open>stream=True\<close> sends
  \<open>stream\<close> as true.
\<close>

theorem C4_counterexample:
  "create_payload sample_env sample_kwargs_stream =
     Some [(str ''model'', JStr (str ''x'')),
           (str ''messages'',
            JArr [JObj [(str ''role'', JStr (str ''user'')),
                        (str ''content'', JStr (str ''hi''))]]),
           (str ''stream'', JBool True)]"
  by code_simp




end
